theory Spec2Isabelle
  imports Complex_Main "HOL-Library.Word"
begin

section \<open>Python values used by the client\<close>

text \<open>
  A Python \<open>str\<close> is a sequence of Unicode code points, a \<open>bytes\<close> object a
  sequence of octets. String literals of the source are written \<open>py ''...''\<close>.
\<close>

type_synonym pystr = "nat list"
type_synonym byte = "8 word"
type_synonym bytes = "byte list"

definition py :: "string \<Rightarrow> pystr" where
  "py cs = map of_char cs"

text \<open>
  The exceptions that can leave the client: the two raised by the source
  (\<open>PaymentException\<close>, \<open>AttributeError\<close>) carry their constructor argument; the others
  are raised by the libraries the source calls (\<open>str.encode\<close>, \<open>bytes.decode\<close>,
  \<open>json.loads\<close>, \<open>requests.post\<close>).
\<close>

datatype error =
    PaymentException pystr
  | AttributeError pystr
  | UnicodeEncodeError
  | UnicodeDecodeError
  | JSONDecodeError
  | RequestException

text \<open>The values stored in the request dictionaries: strings and the float \<open>amount\<close>.\<close>

datatype 'f pyval = PStr pystr | PFloat 'f

subsection \<open>\<open>str.encode()\<close> and \<open>bytes.decode()\<close>: strict UTF-8\<close>

text \<open>
  \<open>str.encode()\<close> raises \<open>UnicodeEncodeError\<close> on a surrogate (U+D800 to U+DFFF).
  Numbers from \<open>0x110000\<close> on are not code points; no Python string holds one.
\<close>

definition encode_cp :: "nat \<Rightarrow> error + bytes" where
  "encode_cp c =
     (if c < 128 then Inr [of_nat c]
      else if c < 2048 then Inr [of_nat (192 + c div 64), of_nat (128 + c mod 64)]
      else if 55296 \<le> c \<and> c \<le> 57343 then Inl UnicodeEncodeError
      else if c < 65536 then
        Inr [of_nat (224 + c div 4096), of_nat (128 + c div 64 mod 64), of_nat (128 + c mod 64)]
      else if c < 1114112 then
        Inr [of_nat (240 + c div 262144), of_nat (128 + c div 4096 mod 64),
             of_nat (128 + c div 64 mod 64), of_nat (128 + c mod 64)]
      else Inl UnicodeEncodeError)"

fun str_encode :: "pystr \<Rightarrow> error + bytes" where
  "str_encode [] = Inr []"
| "str_encode (c # cs) =
     (case encode_cp c of
        Inl e \<Rightarrow> Inl e
      | Inr bs \<Rightarrow> (case str_encode cs of Inl e \<Rightarrow> Inl e | Inr rest \<Rightarrow> Inr (bs @ rest)))"

definition is_cont :: "byte \<Rightarrow> bool" where
  "is_cont b = (128 \<le> unat b \<and> unat b \<le> 191)"

definition cont_bits :: "byte \<Rightarrow> nat" where
  "cont_bits b = unat b - 128"

text \<open>
  \<open>bytes.decode()\<close>: the strict decoder refuses overlong forms, surrogates, values
  above U+10FFFF, stray continuation bytes and truncated sequences.
\<close>

fun bytes_decode :: "bytes \<Rightarrow> error + pystr" where
  "bytes_decode [] = Inr []"
| "bytes_decode (b0 # rest) =
     (let n0 = unat b0 in
      if n0 < 128 then
        (case bytes_decode rest of Inl e \<Rightarrow> Inl e | Inr cs \<Rightarrow> Inr (n0 # cs))
      else if 194 \<le> n0 \<and> n0 \<le> 223 then
        (case rest of
           b1 # r1 \<Rightarrow>
             if is_cont b1 then
               (case bytes_decode r1 of
                  Inl e \<Rightarrow> Inl e
                | Inr cs \<Rightarrow> Inr (((n0 - 192) * 64 + cont_bits b1) # cs))
             else Inl UnicodeDecodeError
         | _ \<Rightarrow> Inl UnicodeDecodeError)
      else if 224 \<le> n0 \<and> n0 \<le> 239 then
        (case rest of
           b1 # b2 # r2 \<Rightarrow>
             if is_cont b1 \<and> is_cont b2
                \<and> (n0 = 224 \<longrightarrow> 160 \<le> unat b1) \<and> (n0 = 237 \<longrightarrow> unat b1 \<le> 159) then
               (case bytes_decode r2 of
                  Inl e \<Rightarrow> Inl e
                | Inr cs \<Rightarrow>
                    Inr (((n0 - 224) * 4096 + cont_bits b1 * 64 + cont_bits b2) # cs))
             else Inl UnicodeDecodeError
         | _ \<Rightarrow> Inl UnicodeDecodeError)
      else if 240 \<le> n0 \<and> n0 \<le> 244 then
        (case rest of
           b1 # b2 # b3 # r3 \<Rightarrow>
             if is_cont b1 \<and> is_cont b2 \<and> is_cont b3
                \<and> (n0 = 240 \<longrightarrow> 144 \<le> unat b1) \<and> (n0 = 244 \<longrightarrow> unat b1 \<le> 143) then
               (case bytes_decode r3 of
                  Inl e \<Rightarrow> Inl e
                | Inr cs \<Rightarrow>
                    Inr (((n0 - 240) * 262144 + cont_bits b1 * 4096 + cont_bits b2 * 64
                          + cont_bits b3) # cs))
             else Inl UnicodeDecodeError
         | _ \<Rightarrow> Inl UnicodeDecodeError)
      else Inl UnicodeDecodeError)"

subsection \<open>\<open>base64.b64encode\<close>\<close>

definition b64_alphabet :: bytes where
  "b64_alphabet =
     map of_char ''ABCDEFGHIJKLMNOPQRSTUVWXYZabcdefghijklmnopqrstuvwxyz0123456789+/''"

definition b64_digit :: "nat \<Rightarrow> byte" where
  "b64_digit n = b64_alphabet ! n"

fun b64encode :: "bytes \<Rightarrow> bytes" where
  "b64encode [] = []"
| "b64encode [a] =
     [b64_digit (unat a div 4), b64_digit (unat a mod 4 * 16), 61, 61]"
| "b64encode [a, b] =
     [b64_digit (unat a div 4), b64_digit (unat a mod 4 * 16 + unat b div 16),
      b64_digit (unat b mod 16 * 4), 61]"
| "b64encode (a # b # c # rest) =
     [b64_digit (unat a div 4), b64_digit (unat a mod 4 * 16 + unat b div 16),
      b64_digit (unat b mod 16 * 4 + unat c div 64), b64_digit (unat c mod 64)]
     @ b64encode rest"

subsection \<open>\<open>str(int)\<close>, \<open>str.replace\<close>, \<open>str.join\<close>, \<open>str(list)\<close>\<close>

fun digits :: "nat \<Rightarrow> pystr" where
  "digits n = (if n < 10 then [48 + n] else digits (n div 10) @ [48 + n mod 10])"

declare digits.simps [simp del]

definition str_int :: "int \<Rightarrow> pystr" where
  "str_int i = (if i < 0 then 45 # digits (nat (- i)) else digits (nat i))"

text \<open>\<open>s.replace(old, new)\<close> for a pattern \<open>old\<close> of one character.\<close>

definition str_replace :: "pystr \<Rightarrow> nat \<Rightarrow> pystr \<Rightarrow> pystr" where
  "str_replace s old new = concat (map (\<lambda>c. if c = old then new else [c]) s)"

fun join :: "pystr \<Rightarrow> pystr list \<Rightarrow> pystr" where
  "join sep [] = []"
| "join sep [x] = x"
| "join sep (x # y # ys) = x @ sep @ join sep (y # ys)"

text \<open>
  \<open>str\<close> of a list of strings, as \<open>'{}'.format\<close> renders it. The quoting is that of
  \<open>repr\<close> on a string with no quote, backslash or unprintable character, which is what
  the list of supported currencies holds.
\<close>

definition list_str :: "pystr list \<Rightarrow> pystr" where
  "list_str xs = py ''['' @ join (py '', '') (map (\<lambda>x. py [CHR 39] @ x @ py [CHR 39]) xs) @ py '']''"

subsection \<open>\<open>urllib.parse.urlencode\<close>\<close>

text \<open>
  \<open>urlencode\<close> quotes every key and value with \<open>quote_plus\<close>: the string is encoded as
  UTF-8, and each octet outside \<open>A-Z a-z 0-9 _ . - ~\<close> becomes \<open>%XX\<close> (upper-case
  hexadecimal), a space becomes \<open>+\<close>.
\<close>

definition always_safe :: "byte \<Rightarrow> bool" where
  "always_safe b =
     (let n = unat b in
      (65 \<le> n \<and> n \<le> 90) \<or> (97 \<le> n \<and> n \<le> 122) \<or> (48 \<le> n \<and> n \<le> 57)
      \<or> n = 95 \<or> n = 46 \<or> n = 45 \<or> n = 126)"

definition hex_digit :: "nat \<Rightarrow> nat" where
  "hex_digit n = (if n < 10 then 48 + n else 55 + n)"

definition quote_byte :: "byte \<Rightarrow> pystr" where
  "quote_byte b =
     (if always_safe b then [unat b]
      else if b = 32 then [43]
      else [37, hex_digit (unat b div 16), hex_digit (unat b mod 16)])"

definition quote_plus :: "pystr \<Rightarrow> error + pystr" where
  "quote_plus s =
     (case str_encode s of Inl e \<Rightarrow> Inl e | Inr bs \<Rightarrow> Inr (concat (map quote_byte bs)))"

fun encode_items :: "('f \<Rightarrow> pystr) \<Rightarrow> (pystr \<times> 'f pyval) list \<Rightarrow> error + pystr list" where
  "encode_items fs [] = Inr []"
| "encode_items fs ((k, v) # kvs) =
     (case quote_plus k of
        Inl e \<Rightarrow> Inl e
      | Inr qk \<Rightarrow>
          (case quote_plus (case v of PStr t \<Rightarrow> t | PFloat x \<Rightarrow> fs x) of
             Inl e \<Rightarrow> Inl e
           | Inr qv \<Rightarrow>
               (case encode_items fs kvs of
                  Inl e \<Rightarrow> Inl e
                | Inr l \<Rightarrow> Inr ((qk @ py ''='' @ qv) # l))))"

text \<open>\<open>urlencode(data)\<close> for a dictionary, whose items come in insertion order;
  \<open>fs\<close> is \<open>str\<close> on a float.\<close>

definition urlencode :: "('f \<Rightarrow> pystr) \<Rightarrow> (pystr \<times> 'f pyval) list \<Rightarrow> error + pystr" where
  "urlencode fs query =
     (case encode_items fs query of Inl e \<Rightarrow> Inl e | Inr l \<Rightarrow> Inr (join (py ''&'') l))"

subsection \<open>Dictionaries\<close>

text \<open>
  A dictionary keeps its items in insertion order: \<open>d[k] = v\<close> replaces the value of a
  key that is present, where it stands, and appends a new key at the end.
\<close>

fun dict_set :: "('k \<times> 'v) list \<Rightarrow> 'k \<Rightarrow> 'v \<Rightarrow> ('k \<times> 'v) list" where
  "dict_set [] k v = [(k, v)]"
| "dict_set ((k', v') # rest) k v =
     (if k' = k then (k, v) # rest else (k', v') # dict_set rest k v)"

section \<open>Python floats\<close>

text \<open>
  A Python \<open>float\<close> is an IEEE 754 binary64 number. The pair \<open>(m, e)\<close> stands for
  the number \<open>m * 2^e\<close>; every operation computes the exact result and rounds it to
  53 significant bits, to nearest, ties to even. The exponent is not bounded: the
  client multiplies and adds numbers of seconds and microseconds, whose results lie
  between \<open>2^-10\<close> and \<open>2^90\<close>, far from overflow and from the subnormal range.
\<close>

type_synonym pyfloat = "int \<times> int"

fun bit_length :: "nat \<Rightarrow> nat" where
  "bit_length n = (if n = 0 then 0 else 1 + bit_length (n div 2))"

declare bit_length.simps [simp del]

text \<open>\<open>m / 2^k\<close> rounded to the nearest integer, a tie to the even one.\<close>

definition round_half_even :: "nat \<Rightarrow> nat \<Rightarrow> nat" where
  "round_half_even m k =
     (if 2 ^ k < 2 * (m mod 2 ^ k) \<or> (2 * (m mod 2 ^ k) = 2 ^ k \<and> odd (m div 2 ^ k))
      then m div 2 ^ k + 1 else m div 2 ^ k)"

text \<open>\<open>m * 2^e\<close>, where \<open>m\<close> has \<open>n\<close> bits, rounded to 53 bits.\<close>

definition round_to :: "nat \<Rightarrow> int \<Rightarrow> int \<Rightarrow> pyfloat" where
  "round_to n m e =
     (if n \<le> 53 then (m, e)
      else (sgn m * int (round_half_even (nat \<bar>m\<bar>) (n - 53)), e + int (n - 53)))"

definition fround :: "int \<Rightarrow> int \<Rightarrow> pyfloat" where
  "fround m e = round_to (bit_length (nat \<bar>m\<bar>)) m e"

text \<open>\<open>float(i)\<close>, \<open>x * y\<close> and \<open>x + y\<close>.\<close>

definition float_of_int :: "int \<Rightarrow> pyfloat" where
  "float_of_int i = fround i 0"

definition fmul :: "pyfloat \<Rightarrow> pyfloat \<Rightarrow> pyfloat" where
  "fmul x y = fround (fst x * fst y) (snd x + snd y)"

definition fadd :: "pyfloat \<Rightarrow> pyfloat \<Rightarrow> pyfloat" where
  "fadd x y =
     fround (fst x * 2 ^ nat (snd x - min (snd x) (snd y))
             + fst y * 2 ^ nat (snd y - min (snd x) (snd y)))
       (min (snd x) (snd y))"

text \<open>
  \<open>x / y\<close> for \<open>y\<close> other than zero (the client divides by the literal \<open>1e3\<close> only).
  \<open>quotient_bits a b k\<close> is twice the integer part of \<open>a * 2^k / b\<close>, plus one when
  the division leaves a remainder: with \<open>k\<close> large enough it has more than 56 bits,
  and rounding it to 53 bits rounds the exact quotient.
\<close>

definition quotient_bits :: "nat \<Rightarrow> nat \<Rightarrow> nat \<Rightarrow> nat" where
  "quotient_bits a b k =
     2 * (a * 2 ^ k div b) + (if a * 2 ^ k mod b = 0 then 0 else 1)"

definition fdiv :: "pyfloat \<Rightarrow> pyfloat \<Rightarrow> pyfloat" where
  "fdiv x y =
     fround (sgn (fst x) * sgn (fst y)
             * int (quotient_bits (nat \<bar>fst x\<bar>) (nat \<bar>fst y\<bar>)
                      (56 + bit_length (nat \<bar>fst y\<bar>))))
       (snd x - snd y - int (56 + bit_length (nat \<bar>fst y\<bar>)) - 1)"

text \<open>\<open>int(x)\<close> truncates towards zero.\<close>

definition int_of_float :: "pyfloat \<Rightarrow> int" where
  "int_of_float x =
     (if 0 \<le> snd x then fst x * 2 ^ nat (snd x)
      else sgn (fst x) * (\<bar>fst x\<bar> div 2 ^ nat (- snd x)))"

section \<open>The environment of the client\<close>

text \<open>
  The functions of \<open>hashlib\<close>, \<open>hmac\<close> and \<open>json\<close> and \<open>str\<close> on a float are
  not code of the client; the model takes them as parameters. \<open>hmac_sha512 key msg\<close>
  stands for \<open>hmac.new(key, msg, hashlib.sha512).digest()\<close>.
\<close>

record ('f, 'j) pylib =
  sha256 :: "bytes \<Rightarrow> bytes"
  hmac_sha512 :: "bytes \<Rightarrow> bytes \<Rightarrow> bytes"
  json_loads :: "pystr \<Rightarrow> error + 'j"
  float_str :: "'f \<Rightarrow> pystr"

record request =
  url :: pystr
  headers :: "(pystr \<times> pystr) list"
  body :: pystr

record response =
  status_code :: int
  body_text :: pystr

text \<open>
  The world outside the process. \<open>now w k\<close> is what the \<open>k\<close>-th reading of the
  system clock yields: the pair of \<open>mktime(then.timetuple())\<close>, a whole number of
  seconds since the epoch in local time, and \<open>then.microsecond\<close>, for
  \<open>then = datetime.now()\<close>. \<open>ticks\<close> counts the readings made so far.
  \<open>sent\<close> is the list of the POST requests issued so far, \<open>respond\<close> what the network
  answers to a request, given the earlier ones: a response or an exception of
  \<open>requests\<close>.
\<close>

record world =
  now :: "nat \<Rightarrow> int \<times> nat"
  ticks :: nat
  respond :: "request list \<Rightarrow> request \<Rightarrow> error + response"
  sent :: "request list"

definition requests_post ::
  "pystr \<Rightarrow> (pystr \<times> pystr) list \<Rightarrow> pystr \<Rightarrow> world \<Rightarrow> (error + response) \<times> world" where
  "requests_post u hs d w =
     (let req = \<lparr>url = u, headers = hs, body = d\<rparr>
      in (respond w (sent w) req, w\<lparr>sent := sent w @ [req]\<rparr>))"

section \<open>The client (\<open>mistertango/client.py\<close>)\<close>

definition DEFAULT_BASE_URL :: pystr where
  "DEFAULT_BASE_URL = py ''https://api.mistertango.com:8445''"

definition SUPPORTED_CURRENCIES :: "pystr list" where
  "SUPPORTED_CURRENCIES = [py ''EUR'']"

record client =
  api_key :: pystr
  secret_key :: pystr
  username :: pystr
  api_url :: pystr

text \<open>\<open>__init__\<close>: \<open>api_url or DEFAULT_BASE_URL\<close> takes the default for \<open>None\<close> and for
  the empty string.\<close>

definition Mistertango :: "pystr \<Rightarrow> pystr \<Rightarrow> pystr \<Rightarrow> pystr option \<Rightarrow> client" where
  "Mistertango k s u a =
     \<lparr>api_key = k, secret_key = s, username = u,
      api_url = (case a of None \<Rightarrow> DEFAULT_BASE_URL
                 | Some x \<Rightarrow> if x = [] then DEFAULT_BASE_URL else x)\<rparr>"

definition convert_username :: "client \<Rightarrow> pystr \<Rightarrow> pystr" where
  "convert_username self u = str_replace u 64 (py ''%40'')"

text \<open>
  \<open>_get_nonce\<close>: \<open>epochStr t\<close> is the float
  \<open>(mktime(then.timetuple()) * 1e3 + then.microsecond / 1e3) * 10000\<close> for the
  reading \<open>t\<close>, and \<open>clock w k\<close> the integer \<open>int(epochStr)\<close> of the \<open>k\<close>-th reading.
\<close>

definition epochStr :: "int \<times> nat \<Rightarrow> pyfloat" where
  "epochStr t =
     fmul (fadd (fmul (float_of_int (fst t)) (1000, 0))
                (fdiv (float_of_int (int (snd t))) (1000, 0)))
          (float_of_int 10000)"

definition clock :: "world \<Rightarrow> nat \<Rightarrow> int" where
  "clock w k = int_of_float (epochStr (now w k))"

definition get_nonce :: "client \<Rightarrow> world \<Rightarrow> pystr \<times> world" where
  "get_nonce self w =
     (str_int (int_of_float (epochStr (now w (ticks w)))), w\<lparr>ticks := ticks w + 1\<rparr>)"

definition make_signature ::
  "('f, 'j) pylib \<Rightarrow> client \<Rightarrow> pystr \<Rightarrow> pystr \<Rightarrow> pystr \<Rightarrow> error + pystr" where
  "make_signature L self nonce data endpoint =
     (case str_encode (nonce @ data) of
        Inl e \<Rightarrow> Inl e
      | Inr encoded \<Rightarrow>
          (case str_encode endpoint of
             Inl e \<Rightarrow> Inl e
           | Inr ep \<Rightarrow>
               (let message = ep @ sha256 L encoded in
                case str_encode (secret_key self) of
                  Inl e \<Rightarrow> Inl e
                | Inr key \<Rightarrow>
                    (let signature = hmac_sha512 L key message;
                         sigdigest = b64encode signature
                     in bytes_decode sigdigest))))"

definition prepare_headers ::
  "('f, 'j) pylib \<Rightarrow> client \<Rightarrow> pystr \<Rightarrow> pystr \<Rightarrow> pystr \<Rightarrow> error + (pystr \<times> pystr) list" where
  "prepare_headers L self nonce endpoint data =
     (case make_signature L self nonce data endpoint of
        Inl e \<Rightarrow> Inl e
      | Inr signature \<Rightarrow>
          Inr [(py ''X-API-KEY'', api_key self),
               (py ''X-API-SIGN'', signature),
               (py ''X-API-NONCE'', nonce),
               (py ''Content-Type'', py ''application/x-www-form-urlencoded'')])"

definition generate_url :: "client \<Rightarrow> pystr \<Rightarrow> pystr" where
  "generate_url self endpoint = api_url self @ endpoint"

text \<open>
  Every method returns its result, the client object as the call leaves it, and the
  world as the call leaves it.
\<close>

definition send_request ::
  "('f, 'j) pylib \<Rightarrow> client \<Rightarrow> pystr \<Rightarrow> (pystr \<times> 'f pyval) list \<Rightarrow> world
     \<Rightarrow> (error + 'j) \<times> client \<times> world" where
  "send_request L self endpoint data w =
     (let (nonce, w1) = get_nonce self w;
          data1 = dict_set data (py ''nonce'') (PStr nonce)
      in case urlencode (float_str L) data1 of
           Inl e \<Rightarrow> (Inl e, self, w1)
         | Inr post_params \<Rightarrow>
             (case prepare_headers L self nonce endpoint post_params of
                Inl e \<Rightarrow> (Inl e, self, w1)
              | Inr hs \<Rightarrow>
                  (let (r, w2) = requests_post (generate_url self endpoint) hs post_params w1
                   in case r of
                        Inl e \<Rightarrow> (Inl e, self, w2)
                      | Inr resp \<Rightarrow>
                          if status_code resp \<noteq> 200 then
                            (Inl (PaymentException (py ''MisterTango error: '' @ body_text resp)),
                             self, w2)
                          else (json_loads L (body_text resp), self, w2))))"

definition get_balance ::
  "('f, 'j) pylib \<Rightarrow> client \<Rightarrow> world \<Rightarrow> (error + 'j) \<times> client \<times> world" where
  "get_balance L self w =
     (let endpoint = py ''/v1/transaction/getBalance'';
          data = [(py ''username'', PStr (username self))]
      in send_request L self endpoint data w)"

definition send_money ::
  "('f, 'j) pylib \<Rightarrow> client \<Rightarrow> 'f \<Rightarrow> pystr \<Rightarrow> pystr \<Rightarrow> pystr \<Rightarrow> pystr \<Rightarrow> world
     \<Rightarrow> (error + 'j) \<times> client \<times> world" where
  "send_money L self amount currency recipient account details w =
     (let endpoint = py ''/v1/transaction/sendMoney''
      in if currency \<notin> set SUPPORTED_CURRENCIES then
           (Inl (AttributeError
                  (py ''Currency not supported. Please use any from this list: ''
                   @ list_str SUPPORTED_CURRENCIES)),
            self, w)
         else
           (let data = [(py ''username'', PStr (username self)),
                        (py ''amount'', PFloat amount),
                        (py ''currency'', PStr currency),
                        (py ''recipient'', PStr recipient),
                        (py ''account'', PStr account),
                        (py ''details'', PStr details)]
            in send_request L self endpoint data w))"

section \<open>Notions used in the statements\<close>

text \<open>
  The characters \<open>quote_plus\<close> leaves as they are, as a predicate on code points: it is
  \<open>always_safe\<close> read on the one octet such a character encodes to.
\<close>

definition unreserved :: "nat \<Rightarrow> bool" where
  "unreserved c =
     ((65 \<le> c \<and> c \<le> 90) \<or> (97 \<le> c \<and> c \<le> 122) \<or> (48 \<le> c \<and> c \<le> 57)
      \<or> c = 95 \<or> c = 46 \<or> c = 45 \<or> c = 126)"

text \<open>
  What \<open>quote_plus\<close> makes of a single character: the quoted octets of its UTF-8
  encoding. \<open>percent_escape b\<close> is the escape \<open>%XX\<close> of the octet \<open>b\<close>.
\<close>

definition percent_escape :: "byte \<Rightarrow> pystr" where
  "percent_escape b = [37, hex_digit (unat b div 16), hex_digit (unat b mod 16)]"

definition quote_char :: "nat \<Rightarrow> pystr" where
  "quote_char c = (case encode_cp c of Inl e \<Rightarrow> [] | Inr bs \<Rightarrow> concat (map quote_byte bs))"

text \<open>
  The request \<open>_send_request\<close> hands to \<open>requests.post\<close> once the nonce, the
  signature and the encoded parameters are known: the URL of \<open>_generate_url\<close>, the
  four headers of \<open>_prepare_headers\<close> and the encoded parameters as the body.
\<close>

definition request_of :: "client \<Rightarrow> pystr \<Rightarrow> pystr \<Rightarrow> pystr \<Rightarrow> pystr \<Rightarrow> request" where
  "request_of self endpoint nonce signature post_params =
     \<lparr>url = api_url self @ endpoint,
      headers = [(py ''X-API-KEY'', api_key self),
                 (py ''X-API-SIGN'', signature),
                 (py ''X-API-NONCE'', nonce),
                 (py ''Content-Type'', py ''application/x-www-form-urlencoded'')],
      body = post_params\<rparr>"

text \<open>The real number a float stands for.\<close>

definition fval :: "pyfloat \<Rightarrow> real" where
  "fval x = of_int (fst x) * 2 powi snd x"

subsection \<open>A concrete library, client and server\<close>

text \<open>
  The statements below hold for every hash, MAC, JSON parser and float printer. To
  evaluate them on concrete calls, \<open>demo_lib\<close> fixes simple stand-ins for the four
  library functions, \<open>demo_client\<close> builds a client with the default URL, and
  \<open>demo_world\<close> is a machine whose clock reads second \<open>1700000000\<close>, microsecond
  \<open>6\<close> at the first call and a second more at each later one, and whose server
  answers every request with a given status and text; the first nonce there is
  \<open>17000000000000062\<close>. \<open>demo_request u qu\<close> is the \<open>getBalance\<close> request of the
  client with user name \<open>u\<close>, where \<open>qu\<close> is the quoted form of \<open>u\<close>.
  \<open>still_world t\<close> is a machine whose clock always reads \<open>t\<close> and whose network is
  down.
\<close>

definition demo_lib :: "(nat, pystr) pylib" where
  "demo_lib =
     \<lparr>sha256 = (\<lambda>bs. replicate 32 (sum_list bs)),
      hmac_sha512 = (\<lambda>k m. replicate 64 (sum_list k + sum_list m)),
      json_loads = (\<lambda>t. if t = [] then Inl JSONDecodeError else Inr t),
      float_str = (\<lambda>n. digits n @ py ''.0'')\<rparr>"

definition demo_client :: "pystr \<Rightarrow> client" where
  "demo_client u = Mistertango (py ''key'') (py ''secret'') u None"

definition demo_world :: "int \<Rightarrow> pystr \<Rightarrow> world" where
  "demo_world st txt =
     \<lparr>now = (\<lambda>k. (1700000000 + int k, 6)), ticks = 0,
      respond = (\<lambda>_ _. Inr \<lparr>status_code = st, body_text = txt\<rparr>), sent = []\<rparr>"

definition demo_payload :: "pystr \<Rightarrow> pystr" where
  "demo_payload qu = py ''username='' @ qu @ py ''&nonce=17000000000000062''"

definition demo_signature :: "pystr \<Rightarrow> pystr" where
  "demo_signature qu =
     map unat (b64encode (hmac_sha512 demo_lib (map of_nat (py ''secret''))
       (map of_nat (py ''/v1/transaction/getBalance'')
        @ sha256 demo_lib (map of_nat (py ''17000000000000062'' @ demo_payload qu)))))"

definition demo_request :: "pystr \<Rightarrow> pystr \<Rightarrow> request" where
  "demo_request u qu =
     request_of (demo_client u) (py ''/v1/transaction/getBalance'') (py ''17000000000000062'')
       (demo_signature qu) (demo_payload qu)"


section \<open>Rounding errors of the float operations\<close>


lemma bit_length_less: "n < 2 ^ bit_length n"
proof (induction n rule: bit_length.induct)
  case (1 n)
  show ?case
  proof (cases "n = 0")
    case True
    then show ?thesis by (simp add: bit_length.simps)
  next
    case False
    with 1 have "n div 2 < 2 ^ bit_length (n div 2)" by simp
    then have "n < 2 * 2 ^ bit_length (n div 2)" by linarith
    with False show ?thesis by (subst bit_length.simps) simp
  qed
qed








lemma fval_fmul:
  "of_int (fst x * fst y) * 2 powi (snd x + snd y) = fval x * fval y"
  by (simp add: fval_def power_int_add)




lemma fval_nonneg: "0 \<le> fst x \<Longrightarrow> 0 \<le> fval x"
  by (simp add: fval_def)





lemma get_nonce_clock:
  "get_nonce self w = (str_int (clock w (ticks w)), w\<lparr>ticks := ticks w + 1\<rparr>)"
  by (simp add: get_nonce_def clock_def)

lemmas float_eval = epochStr_def fmul_def fadd_def fdiv_def float_of_int_def fround_def
  round_to_def quotient_bits_def round_half_even_def int_of_float_def bit_length.simps

section \<open>Properties of the library functions and of \<open>_send_request\<close>\<close>

lemma unat_byte_less: "unat (b :: byte) < 256"
  using unsigned_less [of b, where 'a = nat] by simp

lemma b64_alphabet_length: "length b64_alphabet = 64"
  by (simp add: b64_alphabet_def)

lemma b64_alphabet_ascii: "\<forall>x \<in> set b64_alphabet. unat x < 128"
  by (simp add: b64_alphabet_def)

lemma b64_digit_ascii: "n < 64 \<Longrightarrow> unat (b64_digit n) < 128"
  using b64_alphabet_ascii b64_alphabet_length by (simp add: b64_digit_def)

lemma b64encode_ascii: "\<forall>x \<in> set (b64encode bs). unat x < 128"
proof (induction bs rule: b64encode.induct)
  case 1
  show ?case by simp
next
  case (2 a)
  have "unat a div 4 < 64" "unat a mod 4 * 16 < 64"
    using unat_byte_less [of a] by simp_all
  then show ?case by (simp add: b64_digit_ascii)
next
  case (3 a b)
  have "unat a div 4 < 64" "unat a mod 4 * 16 + unat b div 16 < 64" "unat b mod 16 * 4 < 64"
    using unat_byte_less [of a] unat_byte_less [of b] by simp_all
  then show ?case by (simp add: b64_digit_ascii)
next
  case (4 a b c rest)
  have "unat a div 4 < 64" "unat a mod 4 * 16 + unat b div 16 < 64"
    "unat b mod 16 * 4 + unat c div 64 < 64" "unat c mod 64 < 64"
    using unat_byte_less [of a] unat_byte_less [of b] unat_byte_less [of c] by simp_all
  with 4 show ?case by (simp add: b64_digit_ascii)
qed

lemma bytes_decode_ascii:
  "\<forall>x \<in> set bs. unat x < 128 \<Longrightarrow> bytes_decode bs = Inr (map unat bs)"
  by (induction bs) simp_all

lemma str_encode_append:
  "str_encode (xs @ ys) =
     (case str_encode xs of
        Inl e \<Rightarrow> Inl e
      | Inr a \<Rightarrow> (case str_encode ys of Inl e \<Rightarrow> Inl e | Inr b \<Rightarrow> Inr (a @ b)))"
  by (induction xs) (auto split: sum.splits)

lemma str_encode_ascii:
  "\<forall>c \<in> set s. c < 128 \<Longrightarrow> str_encode s = Inr (map of_nat s)"
  by (induction s) (simp_all add: encode_cp_def)

lemma digits_range: "\<forall>c \<in> set (digits n). 48 \<le> c \<and> c \<le> 57"
proof (induction n rule: digits.induct)
  case (1 n)
  show ?case
  proof (cases "n < 10")
    case True
    then show ?thesis by (subst digits.simps) simp
  next
    case False
    have "n mod 10 < 10" by simp
    with False 1 show ?thesis
      by (subst digits.simps) auto
  qed
qed

lemma str_int_range: "\<forall>c \<in> set (str_int i). c = 45 \<or> (48 \<le> c \<and> c \<le> 57)"
  using digits_range by (auto simp: str_int_def)

lemma unat_of_nat_byte: "c < 256 \<Longrightarrow> unat (of_nat c :: byte) = c"
  by (simp add: unat_of_nat)

lemma quote_byte_unreserved: "unreserved c \<Longrightarrow> quote_byte (of_nat c) = [c]"
proof -
  assume u: "unreserved c"
  then have "c < 256" by (auto simp: unreserved_def)
  then have "unat (of_nat c :: byte) = c" by (rule unat_of_nat_byte)
  with u show ?thesis by (simp add: quote_byte_def always_safe_def unreserved_def)
qed

lemma quote_byte_at: "quote_byte 64 = py ''%40''"
  by (simp add: quote_byte_def always_safe_def hex_digit_def py_def)

lemma quote_plus_unreserved:
  "\<forall>c \<in> set s. unreserved c \<Longrightarrow> quote_plus s = Inr s"
proof -
  assume a: "\<forall>c \<in> set s. unreserved c"
  then have "\<forall>c \<in> set s. c < 128" by (auto simp: unreserved_def)
  then have e: "str_encode s = Inr (map of_nat s)" by (rule str_encode_ascii)
  from a have "concat (map quote_byte (map of_nat s)) = s"
    by (induction s) (simp_all add: quote_byte_unreserved)
  with e show ?thesis by (simp add: quote_plus_def)
qed

lemma quote_plus_str_int: "quote_plus (str_int i) = Inr (str_int i)"
  using str_int_range [of i] by (intro quote_plus_unreserved) (auto simp: unreserved_def)

lemma quote_plus_at:
  "\<forall>c \<in> set s. unreserved c \<or> c = 64 \<Longrightarrow> quote_plus s = Inr (str_replace s 64 (py ''%40''))"
proof -
  assume a: "\<forall>c \<in> set s. unreserved c \<or> c = 64"
  then have "\<forall>c \<in> set s. c < 128" by (auto simp: unreserved_def)
  then have e: "str_encode s = Inr (map of_nat s)" by (rule str_encode_ascii)
  from a have "concat (map quote_byte (map of_nat s)) = str_replace s 64 (py ''%40'')"
  proof (induction s)
    case Nil
    show ?case by (simp add: str_replace_def)
  next
    case (Cons c s)
    then have ih: "concat (map quote_byte (map of_nat s)) = str_replace s 64 (py ''%40'')"
      by simp
    from Cons.prems have "unreserved c \<or> c = 64" by simp
    then show ?case
    proof
      assume u: "unreserved c"
      then have "c \<noteq> 64" by (auto simp: unreserved_def)
      with u ih show ?thesis by (simp add: quote_byte_unreserved str_replace_def)
    next
      assume "c = 64"
      with ih show ?thesis using quote_byte_at by (simp add: str_replace_def)
    qed
  qed
  with e show ?thesis by (simp add: quote_plus_def)
qed

lemma join_snoc: "xs \<noteq> [] \<Longrightarrow> join sep (xs @ [x]) = join sep xs @ sep @ x"
  by (induction sep xs rule: join.induct) simp_all

lemma encode_items_append:
  "encode_items fs (xs @ ys) =
     (case encode_items fs xs of
        Inl e \<Rightarrow> Inl e
      | Inr l \<Rightarrow> (case encode_items fs ys of Inl e \<Rightarrow> Inl e | Inr m \<Rightarrow> Inr (l @ m)))"
  by (induction xs) (auto split: sum.splits)

lemma encode_items_length: "encode_items fs xs = Inr l \<Longrightarrow> length l = length xs"
  by (induction xs arbitrary: l) (auto split: sum.splits)

lemma dict_set_absent: "k \<notin> fst ` set d \<Longrightarrow> dict_set d k v = d @ [(k, v)]"
  by (induction d) auto

lemma quote_plus_nonce_key: "quote_plus (py ''nonce'') = Inr (py ''nonce'')"
  by (rule quote_plus_unreserved) (simp add: py_def unreserved_def)

lemma urlencode_nonce:
  assumes "d \<noteq> []" and "py ''nonce'' \<notin> fst ` set d"
  shows "urlencode fs (dict_set d (py ''nonce'') (PStr (str_int i))) =
           (case urlencode fs d of
              Inl e \<Rightarrow> Inl e
            | Inr front \<Rightarrow> Inr (front @ py ''&nonce='' @ str_int i))"
proof (cases "encode_items fs d")
  case (Inl e)
  with assms show ?thesis
    by (simp add: dict_set_absent urlencode_def encode_items_append)
next
  case (Inr l)
  with assms have l: "l \<noteq> []" using encode_items_length [OF Inr] by auto
  have items: "encode_items fs (d @ [(py ''nonce'', PStr (str_int i))]) =
                 Inr (l @ [py ''nonce'' @ py ''='' @ str_int i])"
    by (simp add: encode_items_append Inr quote_plus_nonce_key quote_plus_str_int)
  have "py ''&'' @ py ''nonce'' @ py ''='' @ str_int i = py ''&nonce='' @ str_int i"
    by (simp add: py_def)
  with items l Inr assms show ?thesis
    by (simp add: dict_set_absent urlencode_def join_snoc)
qed

lemma make_signature_eq:
  "make_signature L self nonce data endpoint =
     (case str_encode (nonce @ data) of
        Inl e \<Rightarrow> Inl e
      | Inr encoded \<Rightarrow>
          (case str_encode endpoint of
             Inl e \<Rightarrow> Inl e
           | Inr ep \<Rightarrow>
               (case str_encode (secret_key self) of
                  Inl e \<Rightarrow> Inl e
                | Inr key \<Rightarrow>
                    Inr (map unat (b64encode (hmac_sha512 L key (ep @ sha256 L encoded)))))))"
  by (simp add: make_signature_def Let_def bytes_decode_ascii b64encode_ascii split: sum.splits)

lemma send_request_error:
  assumes "urlencode (float_str L) (dict_set data (py ''nonce'') (PStr (str_int (clock w (ticks w)))))
             = Inl e"
  shows "send_request L self endpoint data w = (Inl e, self, w\<lparr>ticks := ticks w + 1\<rparr>)"
  using assms by (simp add: send_request_def get_nonce_clock)

lemma send_request_sign_error:
  assumes "urlencode (float_str L) (dict_set data (py ''nonce'') (PStr (str_int (clock w (ticks w)))))
             = Inr p"
    and "make_signature L self (str_int (clock w (ticks w))) p endpoint = Inl e"
  shows "send_request L self endpoint data w = (Inl e, self, w\<lparr>ticks := ticks w + 1\<rparr>)"
  using assms by (simp add: send_request_def get_nonce_clock prepare_headers_def)

lemma send_request_sent:
  assumes "urlencode (float_str L) (dict_set data (py ''nonce'') (PStr (str_int (clock w (ticks w)))))
             = Inr p"
    and "make_signature L self (str_int (clock w (ticks w))) p endpoint = Inr sg"
  shows "send_request L self endpoint data w =
           (let req = request_of self endpoint (str_int (clock w (ticks w))) sg p
            in (case respond w (sent w) req of
                  Inl e \<Rightarrow> Inl e
                | Inr resp \<Rightarrow>
                    if status_code resp \<noteq> 200
                    then Inl (PaymentException (py ''MisterTango error: '' @ body_text resp))
                    else json_loads L (body_text resp),
                self, w\<lparr>ticks := ticks w + 1, sent := sent w @ [req]\<rparr>))"
  using assms
  by (simp add: send_request_def get_nonce_clock prepare_headers_def requests_post_def
      generate_url_def request_of_def Let_def split: sum.splits)

lemma send_request_dispatched:
  assumes "send_request L self endpoint data w = (res, self', w')"
    and "sent w' = sent w @ [req]"
  obtains p sg where
    "urlencode (float_str L) (dict_set data (py ''nonce'') (PStr (str_int (clock w (ticks w)))))
       = Inr p"
    "make_signature L self (str_int (clock w (ticks w))) p endpoint = Inr sg"
    "req = request_of self endpoint (str_int (clock w (ticks w))) sg p"
    "res = (case respond w (sent w) req of
              Inl e \<Rightarrow> Inl e
            | Inr resp \<Rightarrow>
                if status_code resp \<noteq> 200
                then Inl (PaymentException (py ''MisterTango error: '' @ body_text resp))
                else json_loads L (body_text resp))"
    "self' = self" "w' = w\<lparr>ticks := ticks w + 1, sent := sent w @ [req]\<rparr>"
proof (cases "urlencode (float_str L)
                (dict_set data (py ''nonce'') (PStr (str_int (clock w (ticks w)))))")
  case (Inl e)
  from assms show ?thesis unfolding send_request_error [OF Inl] by auto
next
  case (Inr p)
  show ?thesis
  proof (cases "make_signature L self (str_int (clock w (ticks w))) p endpoint")
    case (Inl e)
    from assms show ?thesis unfolding send_request_sign_error [OF Inr Inl] by auto
  next
    case sg: (Inr sg)
    from assms show ?thesis
      unfolding send_request_sent [OF Inr sg] Let_def
      by (intro that [OF Inr sg]) auto
  qed
qed

lemma demo_nonce:
  "str_int (clock (demo_world st txt) (ticks (demo_world st txt))) = py ''17000000000000062''"
proof -
  have "clock (demo_world st txt) (ticks (demo_world st txt)) = 17000000000000062"
    by (simp add: demo_world_def clock_def float_eval)
  then show ?thesis by (simp add: str_int_def digits.simps py_def)
qed

lemma quote_plus_plus_at:
  "quote_plus (py ''john+doe@example.com'') = Inr (py ''john%2Bdoe%40example.com'')"
  by (simp add: quote_plus_def py_def encode_cp_def quote_byte_def always_safe_def hex_digit_def)

lemma quote_plus_dot_at:
  "quote_plus (py ''jane.doe@example.com'') = Inr (py ''jane.doe%40example.com'')"
  by (simp add: quote_plus_def py_def encode_cp_def quote_byte_def always_safe_def hex_digit_def)

lemma demo_urlencode:
  assumes "quote_plus u = Inr qu"
  shows "urlencode (float_str demo_lib)
     (dict_set [(py ''username'', PStr (username (demo_client u)))] (py ''nonce'')
        (PStr (str_int (clock (demo_world st txt) (ticks (demo_world st txt))))))
     = Inr (demo_payload qu)"
proof -
  have k: "quote_plus (py ''username'') = Inr (py ''username'')"
    by (rule quote_plus_unreserved) (simp add: py_def unreserved_def)
  have n: "quote_plus (py ''17000000000000062'') = Inr (py ''17000000000000062'')"
    by (rule quote_plus_unreserved) (simp add: py_def unreserved_def)
  have u: "username (demo_client u) = u"
    by (simp add: demo_client_def Mistertango_def)
  have "py ''nonce'' \<noteq> py ''username''" by (simp add: py_def)
  then have "urlencode (float_str demo_lib)
     (dict_set [(py ''username'', PStr (username (demo_client u)))] (py ''nonce'')
        (PStr (py ''17000000000000062''))) =
     Inr (py ''username'' @ py ''='' @ qu @ py ''&''
          @ py ''nonce'' @ py ''='' @ py ''17000000000000062'')"
    by (simp add: urlencode_def u k n assms quote_plus_nonce_key)
  then show ?thesis
    unfolding demo_nonce demo_payload_def by (simp add: py_def)
qed

lemma demo_make_signature:
  assumes "\<forall>c \<in> set qu. c < 128"
  shows "make_signature demo_lib (demo_client u) (py ''17000000000000062'') (demo_payload qu)
     (py ''/v1/transaction/getBalance'') = Inr (demo_signature qu)"
proof -
  have a: "str_encode (py ''17000000000000062'' @ demo_payload qu)
             = Inr (map of_nat (py ''17000000000000062'' @ demo_payload qu))"
    using assms by (intro str_encode_ascii) (auto simp: py_def demo_payload_def)
  have b: "str_encode (py ''/v1/transaction/getBalance'')
             = Inr (map of_nat (py ''/v1/transaction/getBalance''))"
    by (rule str_encode_ascii) (simp add: py_def)
  have c: "str_encode (secret_key (demo_client u)) = Inr (map of_nat (py ''secret''))"
    unfolding demo_client_def Mistertango_def
    by (simp, rule str_encode_ascii) (simp add: py_def)
  show ?thesis
    unfolding make_signature_eq a b c demo_signature_def by simp
qed

lemma demo_send_request:
  assumes "quote_plus u = Inr qu" and "\<forall>c \<in> set qu. c < 128"
  shows "send_request demo_lib (demo_client u) (py ''/v1/transaction/getBalance'')
     [(py ''username'', PStr (username (demo_client u)))] (demo_world st txt) =
     (if st \<noteq> 200 then Inl (PaymentException (py ''MisterTango error: '' @ txt))
      else if txt = [] then Inl JSONDecodeError else Inr txt,
      demo_client u, (demo_world st txt)\<lparr>ticks := 1, sent := [demo_request u qu]\<rparr>)"
proof -
  have s: "make_signature demo_lib (demo_client u)
             (str_int (clock (demo_world st txt) (ticks (demo_world st txt)))) (demo_payload qu)
             (py ''/v1/transaction/getBalance'') = Inr (demo_signature qu)"
    unfolding demo_nonce by (rule demo_make_signature [OF assms(2)])
  show ?thesis
    unfolding send_request_sent [OF demo_urlencode [OF assms(1)] s] demo_nonce
    by (simp add: demo_request_def demo_world_def demo_lib_def)
qed

lemma demo_send_request_plus:
  "send_request demo_lib (demo_client (py ''john+doe@example.com''))
     (py ''/v1/transaction/getBalance'')
     [(py ''username'', PStr (username (demo_client (py ''john+doe@example.com''))))]
     (demo_world st txt) =
     (if st \<noteq> 200 then Inl (PaymentException (py ''MisterTango error: '' @ txt))
      else if txt = [] then Inl JSONDecodeError else Inr txt,
      demo_client (py ''john+doe@example.com''),
      (demo_world st txt)\<lparr>ticks := 1,
        sent := [demo_request (py ''john+doe@example.com'') (py ''john%2Bdoe%40example.com'')]\<rparr>)"
  by (rule demo_send_request [OF quote_plus_plus_at]) (simp add: py_def)

lemma demo_send_request_dot:
  "send_request demo_lib (demo_client (py ''jane.doe@example.com''))
     (py ''/v1/transaction/getBalance'')
     [(py ''username'', PStr (username (demo_client (py ''jane.doe@example.com''))))]
     (demo_world st txt) =
     (if st \<noteq> 200 then Inl (PaymentException (py ''MisterTango error: '' @ txt))
      else if txt = [] then Inl JSONDecodeError else Inr txt,
      demo_client (py ''jane.doe@example.com''),
      (demo_world st txt)\<lparr>ticks := 1,
        sent := [demo_request (py ''jane.doe@example.com'') (py ''jane.doe%40example.com'')]\<rparr>)"
  by (rule demo_send_request [OF quote_plus_dot_at]) (simp add: py_def)

lemma demo_sent_empty: "sent (demo_world st txt) = []"
  by (simp add: demo_world_def)

lemma demo_respond: "respond (demo_world st txt) xs r = Inr \<lparr>status_code = st, body_text = txt\<rparr>"
  by (simp add: demo_world_def)

lemma demo_sent_after:
  "sent ((demo_world st txt)\<lparr>ticks := 1, sent := [r]\<rparr>) = sent (demo_world st txt) @ [r]"
  by (simp add: demo_sent_empty)

lemma header_keys_distinct:
  "py ''X-API-SIGN'' \<noteq> py ''X-API-KEY''" "py ''X-API-NONCE'' \<noteq> py ''X-API-KEY''"
  "py ''X-API-NONCE'' \<noteq> py ''X-API-SIGN''"
  by (simp_all add: py_def)

lemma request_of_simps:
  "body (request_of self endpoint n sg p) = p"
  "url (request_of self endpoint n sg p) = api_url self @ endpoint"
  "map_of (headers (request_of self endpoint n sg p)) (py ''X-API-SIGN'') = Some sg"
  "map_of (headers (request_of self endpoint n sg p)) (py ''X-API-NONCE'') = Some n"
  "map_of (headers (request_of self endpoint n sg p)) (py ''X-API-KEY'') = Some (api_key self)"
  by (simp_all add: request_of_def header_keys_distinct)

lemma encode_cp_error: "encode_cp c = Inl e \<Longrightarrow> e = UnicodeEncodeError"
  by (simp add: encode_cp_def split: if_splits)

lemma str_encode_error: "str_encode s = Inl e \<Longrightarrow> e = UnicodeEncodeError"
  by (induction s) (auto split: sum.splits dest: encode_cp_error)

lemma encode_cp_ok:
  "(\<exists>bs. encode_cp c = Inr bs) = (c < 55296 \<or> (57343 < c \<and> c < 1114112))"
  by (auto simp: encode_cp_def)

lemma str_encode_ok:
  "(\<exists>bs. str_encode s = Inr bs)
     = list_all (\<lambda>c. c < 55296 \<or> (57343 < c \<and> c < 1114112)) s"
proof (induction s)
  case Nil
  show ?case by simp
next
  case (Cons c s)
  have "(\<exists>bs. str_encode (c # s) = Inr bs)
          = ((\<exists>b. encode_cp c = Inr b) \<and> (\<exists>bs. str_encode s = Inr bs))"
    by (auto split: sum.splits)
  then show ?case unfolding Cons.IH encode_cp_ok by simp
qed

lemma make_signature_cong:
  assumes "sha256 L1 = sha256 L2" and "hmac_sha512 L1 = hmac_sha512 L2"
    and "secret_key c1 = secret_key c2"
  shows "make_signature L1 c1 nonce data endpoint = make_signature L2 c2 nonce data endpoint"
  by (simp only: make_signature_eq assms)

lemma demo_send_request_any:
  assumes "secret_key c = py ''secret''" and "quote_plus (username c) = Inr qu"
    and "\<forall>x \<in> set qu. x < 128"
  shows "send_request demo_lib c (py ''/v1/transaction/getBalance'')
     [(py ''username'', PStr (username c))] (demo_world st txt) =
     (if st \<noteq> 200 then Inl (PaymentException (py ''MisterTango error: '' @ txt))
      else if txt = [] then Inl JSONDecodeError else Inr txt,
      c, (demo_world st txt)\<lparr>ticks := 1,
            sent := [request_of c (py ''/v1/transaction/getBalance'')
                       (py ''17000000000000062'') (demo_signature qu) (demo_payload qu)]\<rparr>)"
proof -
  have k: "quote_plus (py ''username'') = Inr (py ''username'')"
    by (rule quote_plus_unreserved) (simp add: py_def unreserved_def)
  have n: "quote_plus (py ''17000000000000062'') = Inr (py ''17000000000000062'')"
    by (rule quote_plus_unreserved) (simp add: py_def unreserved_def)
  have "py ''nonce'' \<noteq> py ''username''" by (simp add: py_def)
  then have "urlencode (float_str demo_lib)
     (dict_set [(py ''username'', PStr (username c))] (py ''nonce'')
        (PStr (py ''17000000000000062''))) =
     Inr (py ''username'' @ py ''='' @ qu @ py ''&''
          @ py ''nonce'' @ py ''='' @ py ''17000000000000062'')"
    by (simp add: urlencode_def k n assms(2) quote_plus_nonce_key)
  then have u: "urlencode (float_str demo_lib)
     (dict_set [(py ''username'', PStr (username c))] (py ''nonce'')
        (PStr (str_int (clock (demo_world st txt) (ticks (demo_world st txt))))))
     = Inr (demo_payload qu)"
    unfolding demo_nonce demo_payload_def by (simp add: py_def)
  have a: "str_encode (py ''17000000000000062'' @ demo_payload qu)
             = Inr (map of_nat (py ''17000000000000062'' @ demo_payload qu))"
    using assms(3) by (intro str_encode_ascii) (auto simp: py_def demo_payload_def)
  have b: "str_encode (py ''/v1/transaction/getBalance'')
             = Inr (map of_nat (py ''/v1/transaction/getBalance''))"
    by (rule str_encode_ascii) (simp add: py_def)
  have c: "str_encode (secret_key c) = Inr (map of_nat (py ''secret''))"
    unfolding assms(1) by (rule str_encode_ascii) (simp add: py_def)
  have s: "make_signature demo_lib c
             (str_int (clock (demo_world st txt) (ticks (demo_world st txt)))) (demo_payload qu)
             (py ''/v1/transaction/getBalance'') = Inr (demo_signature qu)"
    unfolding demo_nonce make_signature_eq a b c demo_signature_def by simp
  show ?thesis
    unfolding send_request_sent [OF u s] demo_nonce
    by (simp add: demo_world_def demo_lib_def)
qed

lemma send_request_self: "fst (snd (send_request L self endpoint data w)) = self"
proof (cases "urlencode (float_str L)
                (dict_set data (py ''nonce'') (PStr (str_int (clock w (ticks w)))))")
  case (Inl e)
  show ?thesis unfolding send_request_error [OF Inl] by simp
next
  case (Inr p)
  show ?thesis
  proof (cases "make_signature L self (str_int (clock w (ticks w))) p endpoint")
    case (Inl e)
    show ?thesis unfolding send_request_sign_error [OF Inr Inl] by simp
  next
    case sg: (Inr sg)
    show ?thesis unfolding send_request_sent [OF Inr sg] Let_def by simp
  qed
qed

lemma send_request_ticks: "ticks (snd (snd (send_request L self endpoint data w))) = ticks w + 1"
proof (cases "urlencode (float_str L)
                (dict_set data (py ''nonce'') (PStr (str_int (clock w (ticks w)))))")
  case (Inl e)
  show ?thesis unfolding send_request_error [OF Inl] by simp
next
  case (Inr p)
  show ?thesis
  proof (cases "make_signature L self (str_int (clock w (ticks w))) p endpoint")
    case (Inl e)
    show ?thesis unfolding send_request_sign_error [OF Inr Inl] by simp
  next
    case sg: (Inr sg)
    show ?thesis unfolding send_request_sent [OF Inr sg] Let_def by simp
  qed
qed

lemma list_str_supported: "list_str SUPPORTED_CURRENCIES = [91, 39, 69, 85, 82, 39, 93]"
  by (simp add: list_str_def SUPPORTED_CURRENCIES_def py_def)

lemma str_encode_chars:
  "str_encode s = Inr bs \<Longrightarrow> concat (map quote_byte bs) = concat (map quote_char s)"
proof (induction s arbitrary: bs)
  case Nil
  then show ?case by simp
next
  case (Cons c s)
  from Cons.prems obtain b1 rest where
    c: "encode_cp c = Inr b1" and r: "str_encode s = Inr rest" and bs: "bs = b1 @ rest"
    by (auto split: sum.splits)
  from Cons.IH [OF r] c show ?case unfolding bs by (simp add: quote_char_def)
qed

lemma str_encode_each:
  "str_encode s = Inr bs \<Longrightarrow> c \<in> set s \<Longrightarrow> \<exists>b. encode_cp c = Inr b"
  by (induction s arbitrary: bs) (auto split: sum.splits)

lemma quote_plus_chars: "quote_plus s = Inr q \<Longrightarrow> q = concat (map quote_char s)"
  by (auto simp: quote_plus_def str_encode_chars split: sum.splits)

lemma quote_plus_each:
  "quote_plus s = Inr q \<Longrightarrow> c \<in> set s \<Longrightarrow> \<exists>b. encode_cp c = Inr b"
  by (auto simp: quote_plus_def split: sum.splits dest: str_encode_each)

lemma quote_char_unreserved: "unreserved c \<Longrightarrow> quote_char c = [c]"
proof -
  assume u: "unreserved c"
  then have "c < 128" by (auto simp: unreserved_def)
  then have "encode_cp c = Inr [of_nat c]" by (simp add: encode_cp_def)
  with u show ?thesis by (simp add: quote_char_def quote_byte_unreserved)
qed

lemma quote_char_at: "quote_char 64 = py ''%40''"
  by (simp add: quote_char_def encode_cp_def quote_byte_at)

lemma quote_char_space: "quote_char 32 = py ''+''"
  by (simp add: quote_char_def encode_cp_def quote_byte_def always_safe_def py_def)

lemma quote_byte_high: "128 \<le> unat b \<Longrightarrow> quote_byte b = percent_escape b"
proof -
  assume h: "128 \<le> unat b"
  then have "\<not> always_safe b" by (auto simp: always_safe_def Let_def)
  moreover from h have "b \<noteq> 32" by auto
  ultimately show ?thesis by (simp add: quote_byte_def percent_escape_def)
qed

lemma quote_char_other:
  assumes "\<not> unreserved c" and "c \<noteq> 32" and "encode_cp c = Inr bs"
  shows "quote_char c = concat (map percent_escape bs)"
proof (cases "c < 128")
  case True
  then have bs: "bs = [of_nat c]" using assms(3) by (simp add: encode_cp_def)
  from True have u: "unat (of_nat c :: byte) = c" by (simp add: unat_of_nat_byte)
  with assms(1) have "\<not> always_safe (of_nat c)"
    by (simp add: always_safe_def unreserved_def Let_def)
  moreover from u assms(2) have "(of_nat c :: byte) \<noteq> 32" by auto
  ultimately show ?thesis
    unfolding bs by (simp add: quote_char_def assms(3) bs quote_byte_def percent_escape_def)
next
  case False
  have "\<forall>b \<in> set bs. 128 \<le> unat b"
  proof (cases "c < 2048")
    case True
    with False assms(3) have bs: "bs = [of_nat (192 + c div 64), of_nat (128 + c mod 64)]"
      by (simp add: encode_cp_def)
    from True have "192 + c div 64 < 256" "128 + c mod 64 < 256" by simp_all
    then have "unat (of_nat (192 + c div 64) :: byte) = 192 + c div 64"
      "unat (of_nat (128 + c mod 64) :: byte) = 128 + c mod 64"
      by (simp_all only: unat_of_nat_byte)
    then show ?thesis unfolding bs by simp
  next
    case c2: False
    show ?thesis
    proof (cases "c < 65536")
      case True
      with False c2 assms(3) have bs: "bs = [of_nat (224 + c div 4096),
          of_nat (128 + c div 64 mod 64), of_nat (128 + c mod 64)]"
        by (simp add: encode_cp_def split: if_splits)
      from True have "224 + c div 4096 < 256" "128 + c div 64 mod 64 < 256"
        "128 + c mod 64 < 256" by simp_all
      then have "unat (of_nat (224 + c div 4096) :: byte) = 224 + c div 4096"
        "unat (of_nat (128 + c div 64 mod 64) :: byte) = 128 + c div 64 mod 64"
        "unat (of_nat (128 + c mod 64) :: byte) = 128 + c mod 64"
        by (simp_all only: unat_of_nat_byte)
      then show ?thesis unfolding bs by simp
    next
      case c3: False
      with False c2 assms(3) have lt: "c < 1114112"
        and bs: "bs = [of_nat (240 + c div 262144), of_nat (128 + c div 4096 mod 64),
          of_nat (128 + c div 64 mod 64), of_nat (128 + c mod 64)]"
        by (simp_all add: encode_cp_def split: if_splits)
      from lt have "240 + c div 262144 < 256" "128 + c div 4096 mod 64 < 256"
        "128 + c div 64 mod 64 < 256" "128 + c mod 64 < 256" by simp_all
      then have "unat (of_nat (240 + c div 262144) :: byte) = 240 + c div 262144"
        "unat (of_nat (128 + c div 4096 mod 64) :: byte) = 128 + c div 4096 mod 64"
        "unat (of_nat (128 + c div 64 mod 64) :: byte) = 128 + c div 64 mod 64"
        "unat (of_nat (128 + c mod 64) :: byte) = 128 + c mod 64"
        by (simp_all only: unat_of_nat_byte)
      then show ?thesis unfolding bs by simp
    qed
  qed
  then have m: "map quote_byte bs = map percent_escape bs"
    by (simp add: quote_byte_high)
  show ?thesis by (simp only: quote_char_def assms(3) sum.case m)
qed

lemma join_cons: "l \<noteq> [] \<Longrightarrow> join sep (x # l) = x @ sep @ join sep l"
  by (cases l) simp_all

lemma dict_set_nonempty: "dict_set d k v \<noteq> []"
  by (cases d) (auto split: if_splits)

lemma urlencode_first:
  assumes "urlencode fs ((k, PStr v) # rest) = Inr p" and "rest \<noteq> []"
  shows "\<exists>qk qv tail. quote_plus k = Inr qk \<and> quote_plus v = Inr qv
           \<and> urlencode fs rest = Inr tail \<and> p = qk @ py ''='' @ qv @ py ''&'' @ tail"
proof -
  from assms(1) obtain qk qv l where
    qk: "quote_plus k = Inr qk" and qv: "quote_plus v = Inr qv"
    and l: "encode_items fs rest = Inr l" and p: "p = join (py ''&'') ((qk @ py ''='' @ qv) # l)"
    by (auto simp: urlencode_def split: sum.splits)
  from l assms(2) have "l \<noteq> []" using encode_items_length [OF l] by auto
  with p have "p = qk @ py ''='' @ qv @ py ''&'' @ join (py ''&'') l"
    by (simp add: join_cons)
  with qk qv l show ?thesis by (simp add: urlencode_def)
qed

lemma send_money_dispatched:
  assumes "send_money L self amount currency recipient account details w = (res, self', w')"
    and "sent w' = sent w @ [req]"
  shows "send_request L self (py ''/v1/transaction/sendMoney'')
           [(py ''username'', PStr (username self)), (py ''amount'', PFloat amount),
            (py ''currency'', PStr currency), (py ''recipient'', PStr recipient),
            (py ''account'', PStr account), (py ''details'', PStr details)] w = (res, self', w')"
proof (cases "currency \<in> set SUPPORTED_CURRENCIES")
  case True
  with assms(1) show ?thesis by (simp add: send_money_def Let_def)
next
  case False
  with assms(1) have "w' = w" by (simp add: send_money_def Let_def)
  with assms(2) show ?thesis by simp
qed

lemma username_first:
  assumes "send_request L self endpoint ((py ''username'', PStr u) # rest) w = (res, self', w')"
    and "sent w' = sent w @ [req]"
  shows "\<exists>qu tail. quote_plus u = Inr qu \<and> body req = py ''username='' @ qu @ py ''&'' @ tail"
proof -
  from assms obtain p sg where
    p: "urlencode (float_str L)
          (dict_set ((py ''username'', PStr u) # rest) (py ''nonce'')
             (PStr (str_int (clock w (ticks w))))) = Inr p"
    and req: "req = request_of self endpoint (str_int (clock w (ticks w))) sg p"
    by (rule send_request_dispatched)
  have ne: "py ''username'' \<noteq> py ''nonce''" by (simp add: py_def)
  have qk: "quote_plus (py ''username'') = Inr (py ''username'')"
    by (rule quote_plus_unreserved) (simp add: py_def unreserved_def)
  from p ne have "urlencode (float_str L)
      ((py ''username'', PStr u)
        # dict_set rest (py ''nonce'') (PStr (str_int (clock w (ticks w))))) = Inr p"
    by simp
  from urlencode_first [OF this dict_set_nonempty] qk obtain qu tail where
    "quote_plus u = Inr qu" "p = py ''username'' @ py ''='' @ qu @ py ''&'' @ tail"
    by auto
  moreover have "py ''username'' @ py ''='' @ qu @ py ''&'' @ tail
                   = py ''username='' @ qu @ py ''&'' @ tail"
    by (simp add: py_def)
  ultimately show ?thesis unfolding req by (simp add: request_of_simps)
qed

lemma send_request_nonce_last:
  assumes "send_request L self endpoint data w = (res, self', w')"
    and "sent w' = sent w @ [req]"
    and "data \<noteq> []" and "py ''nonce'' \<notin> fst ` set data"
  shows "\<exists>front. urlencode (float_str L) data = Inr front
           \<and> body req = front @ py ''&nonce='' @ str_int (clock w (ticks w))
           \<and> map_of (headers req) (py ''X-API-NONCE'') = Some (str_int (clock w (ticks w)))
           \<and> (\<exists>sg. make_signature L self (str_int (clock w (ticks w))) (body req) endpoint
                     = Inr sg
                 \<and> map_of (headers req) (py ''X-API-SIGN'') = Some sg)"
proof -
  from assms(1,2) obtain p sg where
    p: "urlencode (float_str L)
          (dict_set data (py ''nonce'') (PStr (str_int (clock w (ticks w))))) = Inr p"
    and sg: "make_signature L self (str_int (clock w (ticks w))) p endpoint = Inr sg"
    and req: "req = request_of self endpoint (str_int (clock w (ticks w))) sg p"
    by (rule send_request_dispatched)
  from p obtain front where f: "urlencode (float_str L) data = Inr front"
    and pf: "p = front @ py ''&nonce='' @ str_int (clock w (ticks w))"
    unfolding urlencode_nonce [OF assms(3,4)] by (auto split: sum.splits)
  from f pf sg show ?thesis unfolding req by (simp add: request_of_simps)
qed

lemma demo_get_balance_dot:
  "get_balance demo_lib (demo_client (py ''jane.doe@example.com'')) (demo_world st txt) =
     (if st \<noteq> 200 then Inl (PaymentException (py ''MisterTango error: '' @ txt))
      else if txt = [] then Inl JSONDecodeError else Inr txt,
      demo_client (py ''jane.doe@example.com''),
      (demo_world st txt)\<lparr>ticks := 1,
        sent := [demo_request (py ''jane.doe@example.com'') (py ''jane.doe%40example.com'')]\<rparr>)"
  unfolding get_balance_def Let_def by (rule demo_send_request_dot)

lemma demo_get_balance_plus:
  "get_balance demo_lib (demo_client (py ''john+doe@example.com'')) (demo_world st txt) =
     (if st \<noteq> 200 then Inl (PaymentException (py ''MisterTango error: '' @ txt))
      else if txt = [] then Inl JSONDecodeError else Inr txt,
      demo_client (py ''john+doe@example.com''),
      (demo_world st txt)\<lparr>ticks := 1,
        sent := [demo_request (py ''john+doe@example.com'') (py ''john%2Bdoe%40example.com'')]\<rparr>)"
  unfolding get_balance_def Let_def by (rule demo_send_request_plus)







section \<open>The claims\<close>

text \<open>
  Claim C1, with the strings UTF-8 cannot encode set apart. For every secret key,
  nonce, encoded payload and endpoint: when the secret key, the nonce followed by the
  payload, and the endpoint all have a UTF-8 encoding, \<open>_make_signature\<close> returns the
  Base64 text of HMAC-SHA512 keyed with the UTF-8 octets of the secret key, over the
  UTF-8 octets of the endpoint followed by the raw SHA-256 digest of the UTF-8 octets
  of the nonce immediately followed by the encoded payload; in every other case it
  raises \<open>UnicodeEncodeError\<close> and there is no signature. A string has a UTF-8
  encoding exactly when it holds no surrogate (U+D800 to U+DFFF). A secret key that
  is one lone surrogate is evaluated below.
\<close>

theorem make_signature_spec:
  "make_signature L self nonce encoded_payload endpoint =
     (case (str_encode (secret_key self), str_encode (nonce @ encoded_payload),
            str_encode endpoint) of
        (Inr key, Inr inner, Inr ep) \<Rightarrow>
          Inr (map unat (b64encode (hmac_sha512 L key (ep @ sha256 L inner))))
      | _ \<Rightarrow> Inl UnicodeEncodeError)
   \<and> (\<exists>bs. str_encode s = Inr bs)
       = list_all (\<lambda>c. c < 55296 \<or> (57343 < c \<and> c < 1114112)) s"
proof -
  have "make_signature L self nonce encoded_payload endpoint =
     (case (str_encode (secret_key self), str_encode (nonce @ encoded_payload),
            str_encode endpoint) of
        (Inr key, Inr inner, Inr ep) \<Rightarrow>
          Inr (map unat (b64encode (hmac_sha512 L key (ep @ sha256 L inner))))
      | _ \<Rightarrow> Inl UnicodeEncodeError)"
    by (auto simp: make_signature_eq split: sum.splits dest: str_encode_error)
  with str_encode_ok show ?thesis by blast
qed

theorem make_signature_spec_witness:
  "list_all (\<lambda>c. c < 55296 \<or> (57343 < c \<and> c < 1114112)) (py ''secret'')
   \<and> (\<exists>bs. str_encode (py ''secret'') = Inr bs)
   \<and> make_signature demo_lib (demo_client (py ''jane.doe@example.com''))
        (py ''17000000000000062'') (demo_payload (py ''jane.doe%40example.com''))
        (py ''/v1/transaction/getBalance'') =
      Inr (map unat (b64encode (hmac_sha512 demo_lib (map of_nat (py ''secret''))
            (map of_nat (py ''/v1/transaction/getBalance'')
             @ sha256 demo_lib (map of_nat (py ''17000000000000062''
                 @ demo_payload (py ''jane.doe%40example.com'')))))))"
proof -
  have a: "str_encode (py ''17000000000000062'' @ demo_payload (py ''jane.doe%40example.com''))
      = Inr (map of_nat (py ''17000000000000062'' @ demo_payload (py ''jane.doe%40example.com'')))"
    by (rule str_encode_ascii) (simp add: py_def demo_payload_def)
  have b: "str_encode (py ''/v1/transaction/getBalance'')
             = Inr (map of_nat (py ''/v1/transaction/getBalance''))"
    by (rule str_encode_ascii) (simp add: py_def)
  have c: "str_encode (secret_key (demo_client (py ''jane.doe@example.com'')))
             = Inr (map of_nat (py ''secret''))"
    unfolding demo_client_def Mistertango_def
    by (simp, rule str_encode_ascii) (simp add: py_def)
  have l: "list_all (\<lambda>c. c < 55296 \<or> (57343 < c \<and> c < 1114112)) (py ''secret'')"
    by (simp add: py_def)
  note m = make_signature_spec [of demo_lib "demo_client (py ''jane.doe@example.com'')"
      "py ''17000000000000062''" "demo_payload (py ''jane.doe%40example.com'')"
      "py ''/v1/transaction/getBalance''" "py ''secret''"]
  from m have 1: "make_signature demo_lib (demo_client (py ''jane.doe@example.com''))
        (py ''17000000000000062'') (demo_payload (py ''jane.doe%40example.com''))
        (py ''/v1/transaction/getBalance'') =
      Inr (map unat (b64encode (hmac_sha512 demo_lib (map of_nat (py ''secret''))
            (map of_nat (py ''/v1/transaction/getBalance'')
             @ sha256 demo_lib (map of_nat (py ''17000000000000062''
                 @ demo_payload (py ''jane.doe%40example.com'')))))))"
    unfolding a b c by simp
  from m l have 2: "\<exists>bs. str_encode (py ''secret'') = Inr bs" by blast
  from l 2 1 show ?thesis by blast
qed

theorem make_signature_spec_counterexample:
  "make_signature demo_lib
     (Mistertango (py ''key'') [55296] (py ''jane.doe@example.com'') None)
     (py ''17000000000000062'') (demo_payload (py ''jane.doe%40example.com''))
     (py ''/v1/transaction/getBalance'') = Inl UnicodeEncodeError"
proof -
  have a: "str_encode (py ''17000000000000062'' @ demo_payload (py ''jane.doe%40example.com''))
      = Inr (map of_nat (py ''17000000000000062'' @ demo_payload (py ''jane.doe%40example.com'')))"
    by (rule str_encode_ascii) (simp add: py_def demo_payload_def)
  have b: "str_encode (py ''/v1/transaction/getBalance'')
             = Inr (map of_nat (py ''/v1/transaction/getBalance''))"
    by (rule str_encode_ascii) (simp add: py_def)
  have c: "str_encode (secret_key
             (Mistertango (py ''key'') [55296] (py ''jane.doe@example.com'') None))
             = Inl UnicodeEncodeError"
    by (simp add: Mistertango_def encode_cp_def)
  show ?thesis unfolding make_signature_eq a b c by simp
qed

text \<open>
  Claim C2. For every request \<open>_send_request\<close> posts, the string the signature is
  computed over is the very string sent as the body: the form-encoding of the
  parameters with the nonce added, in insertion order. The \<open>X-API-SIGN\<close> header of the
  request is the signature of the nonce and that body for the endpoint.
\<close>

theorem signed_payload_is_body:
  assumes "send_request L self endpoint data w = (res, self', w')"
    and "sent w' = sent w @ [req]"
  shows "urlencode (float_str L)
           (dict_set data (py ''nonce'') (PStr (str_int (clock w (ticks w))))) = Inr (body req)
         \<and> (\<exists>sg. make_signature L self (str_int (clock w (ticks w))) (body req) endpoint = Inr sg
               \<and> map_of (headers req) (py ''X-API-SIGN'') = Some sg)"
proof -
  from assms obtain p sg where
    p: "urlencode (float_str L)
          (dict_set data (py ''nonce'') (PStr (str_int (clock w (ticks w))))) = Inr p"
    and sg: "make_signature L self (str_int (clock w (ticks w))) p endpoint = Inr sg"
    and req: "req = request_of self endpoint (str_int (clock w (ticks w))) sg p"
    by (rule send_request_dispatched)
  from p sg show ?thesis unfolding req by (simp add: request_of_simps)
qed

theorem signed_payload_is_body_witness:
  "urlencode (float_str demo_lib)
     (dict_set [(py ''username'', PStr (username (demo_client (py ''jane.doe@example.com''))))]
        (py ''nonce'')
        (PStr (str_int (clock (demo_world 200 (py ''{}'')) (ticks (demo_world 200 (py ''{}'')))))))
     = Inr (body (demo_request (py ''jane.doe@example.com'') (py ''jane.doe%40example.com'')))
   \<and> (\<exists>sg. make_signature demo_lib (demo_client (py ''jane.doe@example.com''))
              (str_int (clock (demo_world 200 (py ''{}'')) (ticks (demo_world 200 (py ''{}'')))))
              (body (demo_request (py ''jane.doe@example.com'') (py ''jane.doe%40example.com'')))
              (py ''/v1/transaction/getBalance'') = Inr sg
          \<and> map_of (headers (demo_request (py ''jane.doe@example.com'')
                               (py ''jane.doe%40example.com'')))
               (py ''X-API-SIGN'') = Some sg)"
  by (rule signed_payload_is_body [OF demo_send_request_dot demo_sent_after])

text \<open>
  Claim C3. For every response to a posted request: when its status code is 200 the
  operation's result is what \<open>json.loads\<close> gives on the response text, with no
  further validation; for every other status code, whatever it is, the operation
  raises \<open>PaymentException\<close> and returns no value.
\<close>

theorem response_classification:
  assumes "send_request L self endpoint data w = (res, self', w')"
    and "sent w' = sent w @ [req]"
    and "respond w (sent w) req = Inr r"
  shows "if status_code r = 200 then res = json_loads L (body_text r)
         else (\<exists>m. res = Inl (PaymentException m))"
proof -
  from assms(1,2) have
    "res = (case respond w (sent w) req of
              Inl e \<Rightarrow> Inl e
            | Inr resp \<Rightarrow>
                if status_code resp \<noteq> 200
                then Inl (PaymentException (py ''MisterTango error: '' @ body_text resp))
                else json_loads L (body_text resp))"
    by (rule send_request_dispatched)
  with assms(3) show ?thesis by simp
qed

theorem response_classification_witness:
  "fst (send_request demo_lib (demo_client (py ''jane.doe@example.com''))
          (py ''/v1/transaction/getBalance'')
          [(py ''username'', PStr (username (demo_client (py ''jane.doe@example.com''))))]
          (demo_world 200 (py ''{}''))) = json_loads demo_lib (py ''{}'')
   \<and> (\<exists>m. fst (send_request demo_lib (demo_client (py ''jane.doe@example.com''))
          (py ''/v1/transaction/getBalance'')
          [(py ''username'', PStr (username (demo_client (py ''jane.doe@example.com''))))]
          (demo_world 503 (py ''busy''))) = Inl (PaymentException m))"
proof -
  note a = response_classification [OF demo_send_request_dot demo_sent_after demo_respond,
      of 200 "py ''{}''"]
  note b = response_classification [OF demo_send_request_dot demo_sent_after demo_respond,
      of 503 "py ''busy''"]
  from a b show ?thesis unfolding demo_send_request_dot by simp
qed

text \<open>
  Claim C4, as the code has it. For every response whose status code is not 200, the
  message of the \<open>PaymentException\<close> raised is the text \<open>MisterTango error: \<close>
  followed by the response text verbatim. The message is therefore not the bare
  response text: on status 400 with text \<open>bad signature\<close> the message is
  \<open>MisterTango error: bad signature\<close>, as evaluated below.
\<close>

theorem payment_error_message:
  assumes "send_request L self endpoint data w = (res, self', w')"
    and "sent w' = sent w @ [req]"
    and "respond w (sent w) req = Inr r"
    and "status_code r \<noteq> 200"
  shows "res = Inl (PaymentException (py ''MisterTango error: '' @ body_text r))"
proof -
  from assms(1,2) have
    "res = (case respond w (sent w) req of
              Inl e \<Rightarrow> Inl e
            | Inr resp \<Rightarrow>
                if status_code resp \<noteq> 200
                then Inl (PaymentException (py ''MisterTango error: '' @ body_text resp))
                else json_loads L (body_text resp))"
    by (rule send_request_dispatched)
  with assms(3,4) show ?thesis by simp
qed

theorem payment_error_message_witness:
  "status_code \<lparr>status_code = 400, body_text = py ''bad signature''\<rparr> \<noteq> 200
   \<and> fst (send_request demo_lib (demo_client (py ''jane.doe@example.com''))
          (py ''/v1/transaction/getBalance'')
          [(py ''username'', PStr (username (demo_client (py ''jane.doe@example.com''))))]
          (demo_world 400 (py ''bad signature'')))
      = Inl (PaymentException (py ''MisterTango error: '' @ py ''bad signature''))"
proof -
  have ne: "status_code \<lparr>status_code = 400, body_text = py ''bad signature''\<rparr> \<noteq> 200"
    by simp
  note a = payment_error_message [OF demo_send_request_dot demo_sent_after demo_respond ne]
  from a ne show ?thesis unfolding demo_send_request_dot by simp
qed

theorem payment_error_message_counterexample:
  "fst (get_balance demo_lib (demo_client (py ''jane.doe@example.com''))
          (demo_world 400 (py ''bad signature'')))
     = Inl (PaymentException (py ''MisterTango error: bad signature''))
   \<and> fst (get_balance demo_lib (demo_client (py ''jane.doe@example.com''))
          (demo_world 400 (py ''bad signature'')))
     \<noteq> Inl (PaymentException (py ''bad signature''))"
  unfolding get_balance_def Let_def demo_send_request_dot by (simp add: py_def)

text \<open>
  Claim C5. For every call of \<open>send_money\<close> whose currency is not in
  \<open>SUPPORTED_CURRENCIES\<close>, the call raises \<open>AttributeError\<close>, an error other than
  \<open>PaymentException\<close>, and leaves the machine as it was: the clock has not been read
  for a nonce and nothing has been posted (no signature is computed on that path).
  The supported currencies are exactly \<open>EUR\<close>, and with \<open>EUR\<close> the call is the
  \<open>_send_request\<close> of the six parameters, which reads the clock once.
\<close>

theorem unsupported_currency:
  assumes "currency \<notin> set SUPPORTED_CURRENCIES"
  shows "send_money L self amount currency recipient account details w =
           (Inl (AttributeError
                  (py ''Currency not supported. Please use any from this list: ''
                   @ [91, 39, 69, 85, 82, 39, 93])), self, w)
         \<and> (\<forall>m n. AttributeError m \<noteq> PaymentException n)
         \<and> set SUPPORTED_CURRENCIES = {py ''EUR''}
         \<and> send_money L self amount (py ''EUR'') recipient account details w =
             send_request L self (py ''/v1/transaction/sendMoney'')
               [(py ''username'', PStr (username self)), (py ''amount'', PFloat amount),
                (py ''currency'', PStr (py ''EUR'')), (py ''recipient'', PStr recipient),
                (py ''account'', PStr account), (py ''details'', PStr details)] w
         \<and> ticks (snd (snd (send_money L self amount (py ''EUR'') recipient account details w)))
             = ticks w + 1"
proof -
  have eur: "py ''EUR'' \<in> set SUPPORTED_CURRENCIES"
    by (simp add: SUPPORTED_CURRENCIES_def)
  have ok: "send_money L self amount (py ''EUR'') recipient account details w =
             send_request L self (py ''/v1/transaction/sendMoney'')
               [(py ''username'', PStr (username self)), (py ''amount'', PFloat amount),
                (py ''currency'', PStr (py ''EUR'')), (py ''recipient'', PStr recipient),
                (py ''account'', PStr account), (py ''details'', PStr details)] w"
    using eur by (simp add: send_money_def Let_def)
  have bad: "send_money L self amount currency recipient account details w =
           (Inl (AttributeError
                  (py ''Currency not supported. Please use any from this list: ''
                   @ [91, 39, 69, 85, 82, 39, 93])), self, w)"
    using assms by (simp add: send_money_def Let_def list_str_supported)
  have s: "set SUPPORTED_CURRENCIES = {py ''EUR''}"
    by (simp add: SUPPORTED_CURRENCIES_def)
  show ?thesis
    unfolding ok send_request_ticks using bad s ok by simp
qed

theorem unsupported_currency_witness:
  "py ''USD'' \<notin> set SUPPORTED_CURRENCIES
   \<and> send_money demo_lib (demo_client (py ''jane.doe@example.com'')) 12 (py ''USD'') (py ''Jane Doe'') (py ''LT12'')
       (py ''rent'') (demo_world 200 (py ''{}'')) =
       (Inl (AttributeError
              (py ''Currency not supported. Please use any from this list: ''
               @ [91, 39, 69, 85, 82, 39, 93])), (demo_client (py ''jane.doe@example.com'')), demo_world 200 (py ''{}''))
   \<and> ticks (snd (snd (send_money demo_lib (demo_client (py ''jane.doe@example.com'')) 12 (py ''EUR'') (py ''Jane Doe'')
        (py ''LT12'') (py ''rent'') (demo_world 200 (py ''{}''))))) = 1"
proof -
  have h: "py ''USD'' \<notin> set SUPPORTED_CURRENCIES"
    by (simp add: SUPPORTED_CURRENCIES_def py_def)
  have t: "ticks (demo_world 200 (py ''{}'')) = 0" by (simp add: demo_world_def)
  note r = unsupported_currency [OF h, of demo_lib "demo_client (py ''jane.doe@example.com'')" 12 "py ''Jane Doe''" "py ''LT12''"
      "py ''rent''" "demo_world 200 (py ''{}'')"]
  from r have a: "send_money demo_lib (demo_client (py ''jane.doe@example.com'')) 12 (py ''USD'') (py ''Jane Doe'') (py ''LT12'')
       (py ''rent'') (demo_world 200 (py ''{}'')) =
       (Inl (AttributeError
              (py ''Currency not supported. Please use any from this list: ''
               @ [91, 39, 69, 85, 82, 39, 93])), (demo_client (py ''jane.doe@example.com'')), demo_world 200 (py ''{}''))"
    by (rule conjunct1)
  from r have b: "ticks (snd (snd (send_money demo_lib (demo_client (py ''jane.doe@example.com'')) 12 (py ''EUR'') (py ''Jane Doe'')
        (py ''LT12'') (py ''rent'') (demo_world 200 (py ''{}''))))) =
        ticks (demo_world 200 (py ''{}'')) + 1"
    by (elim conjE)
  from h a b t show ?thesis by simp
qed




text \<open>
  Claim C7. The signature depends on nothing but the secret key, the nonce, the
  encoded payload and the endpoint. Take two requests posted to the same endpoint, in
  two runs or at two moments of one run: whatever the two machines, their clocks,
  the requests posted before and the answers of the server, whatever the other
  fields of the two clients and the other functions of the library, if the secret
  keys are equal, the nonces are equal and the bodies are equal, then the two
  \<open>X-API-SIGN\<close> headers are the same string. \<open>make_signature\<close> itself gives equal
  results on equal nonce, payload and endpoint for two clients with the same secret
  key.
\<close>

theorem signature_deterministic:
  assumes "sha256 L1 = sha256 L2" and "hmac_sha512 L1 = hmac_sha512 L2"
    and "secret_key c1 = secret_key c2"
    and "send_request L1 c1 endpoint d1 w1 = (r1, c1', w1')" and "sent w1' = sent w1 @ [q1]"
    and "send_request L2 c2 endpoint d2 w2 = (r2, c2', w2')" and "sent w2' = sent w2 @ [q2]"
    and "map_of (headers q1) (py ''X-API-NONCE'') = map_of (headers q2) (py ''X-API-NONCE'')"
    and "body q1 = body q2"
  shows "make_signature L1 c1 nonce payload endpoint
           = make_signature L2 c2 nonce payload endpoint
         \<and> map_of (headers q1) (py ''X-API-SIGN'') = map_of (headers q2) (py ''X-API-SIGN'')"
proof -
  from assms(4,5) obtain p1 sg1 where
    s1: "make_signature L1 c1 (str_int (clock w1 (ticks w1))) p1 endpoint = Inr sg1"
    and q1: "q1 = request_of c1 endpoint (str_int (clock w1 (ticks w1))) sg1 p1"
    by (rule send_request_dispatched)
  from assms(6,7) obtain p2 sg2 where
    s2: "make_signature L2 c2 (str_int (clock w2 (ticks w2))) p2 endpoint = Inr sg2"
    and q2: "q2 = request_of c2 endpoint (str_int (clock w2 (ticks w2))) sg2 p2"
    by (rule send_request_dispatched)
  from assms(8) have n: "str_int (clock w1 (ticks w1)) = str_int (clock w2 (ticks w2))"
    unfolding q1 q2 by (simp add: request_of_simps)
  from assms(9) have p: "p1 = p2" unfolding q1 q2 by (simp add: request_of_simps)
  have c: "make_signature L1 c1 n' d' endpoint = make_signature L2 c2 n' d' endpoint"
    for n' d' by (rule make_signature_cong [OF assms(1,2,3)])
  from s1 s2 have "sg1 = sg2" unfolding n p c by simp
  then have "map_of (headers q1) (py ''X-API-SIGN'') = map_of (headers q2) (py ''X-API-SIGN'')"
    unfolding q1 q2 by (simp add: request_of_simps)
  with c show ?thesis by blast
qed

theorem signature_deterministic_witness:
  "secret_key (demo_client (py ''jane.doe@example.com''))
     = secret_key ((demo_client (py ''jane.doe@example.com''))
         \<lparr>api_key := py ''other'', api_url := py ''http://localhost''\<rparr>)
   \<and> url (request_of (demo_client (py ''jane.doe@example.com''))
          (py ''/v1/transaction/getBalance'') (py ''17000000000000062'')
          (demo_signature (py ''jane.doe%40example.com''))
          (demo_payload (py ''jane.doe%40example.com'')))
     \<noteq> url (request_of ((demo_client (py ''jane.doe@example.com''))
            \<lparr>api_key := py ''other'', api_url := py ''http://localhost''\<rparr>)
          (py ''/v1/transaction/getBalance'') (py ''17000000000000062'')
          (demo_signature (py ''jane.doe%40example.com''))
          (demo_payload (py ''jane.doe%40example.com'')))
   \<and> make_signature demo_lib (demo_client (py ''jane.doe@example.com''))
        (py ''1'') (py ''a=b'') (py ''/v1/transaction/getBalance'')
     = make_signature demo_lib ((demo_client (py ''jane.doe@example.com''))
            \<lparr>api_key := py ''other'', api_url := py ''http://localhost''\<rparr>)
        (py ''1'') (py ''a=b'') (py ''/v1/transaction/getBalance'')
   \<and> map_of (headers (request_of (demo_client (py ''jane.doe@example.com''))
          (py ''/v1/transaction/getBalance'') (py ''17000000000000062'')
          (demo_signature (py ''jane.doe%40example.com''))
          (demo_payload (py ''jane.doe%40example.com'')))) (py ''X-API-SIGN'')
     = map_of (headers (request_of ((demo_client (py ''jane.doe@example.com''))
            \<lparr>api_key := py ''other'', api_url := py ''http://localhost''\<rparr>)
          (py ''/v1/transaction/getBalance'') (py ''17000000000000062'')
          (demo_signature (py ''jane.doe%40example.com''))
          (demo_payload (py ''jane.doe%40example.com'')))) (py ''X-API-SIGN'')"
proof -
  let ?c1 = "demo_client (py ''jane.doe@example.com'')"
  let ?c2 = "(demo_client (py ''jane.doe@example.com''))
               \<lparr>api_key := py ''other'', api_url := py ''http://localhost''\<rparr>"
  let ?q1 = "request_of ?c1 (py ''/v1/transaction/getBalance'') (py ''17000000000000062'')
          (demo_signature (py ''jane.doe%40example.com''))
          (demo_payload (py ''jane.doe%40example.com''))"
  let ?q2 = "request_of ?c2 (py ''/v1/transaction/getBalance'') (py ''17000000000000062'')
          (demo_signature (py ''jane.doe%40example.com''))
          (demo_payload (py ''jane.doe%40example.com''))"
  have k: "secret_key ?c1 = secret_key ?c2" by simp
  have s1: "secret_key ?c1 = py ''secret''" by (simp add: demo_client_def Mistertango_def)
  have s2: "secret_key ?c2 = py ''secret''" by (simp add: demo_client_def Mistertango_def)
  have u1: "quote_plus (username ?c1) = Inr (py ''jane.doe%40example.com'')"
    using quote_plus_dot_at by (simp add: demo_client_def Mistertango_def)
  have u2: "quote_plus (username ?c2) = Inr (py ''jane.doe%40example.com'')"
    using quote_plus_dot_at by (simp add: demo_client_def Mistertango_def)
  have a: "\<forall>x \<in> set (py ''jane.doe%40example.com''). x < 128" by (simp add: py_def)
  note r1 = demo_send_request_any [OF s1 u1 a, of 200 "py ''{}''"]
  note r2 = demo_send_request_any [OF s2 u2 a, of 503 "py ''busy''"]
  have n: "map_of (headers ?q1) (py ''X-API-NONCE'') = map_of (headers ?q2) (py ''X-API-NONCE'')"
    by (simp add: request_of_simps)
  have b: "body ?q1 = body ?q2" by (simp add: request_of_simps)
  note d = signature_deterministic [OF refl refl k r1 demo_sent_after r2 demo_sent_after n b,
      of "py ''1''" "py ''a=b''"]
  have x: "url ?q1 \<noteq> url ?q2"
    by (simp add: request_of_simps demo_client_def Mistertango_def DEFAULT_BASE_URL_def py_def)
  from k x d show ?thesis by blast
qed

text \<open>
  Claim C8, as the code has it. For both public operations, the body posted starts
  with \<open>username=\<close> followed by the user name quoted character by character, as
  \<open>urlencode\<close> does, and more fields after it: each at sign becomes \<open>%40\<close>; ASCII
  letters, digits, \<open>_\<close>, \<open>.\<close>, \<open>-\<close> and \<open>~\<close> stay as they are; a space becomes \<open>+\<close>;
  every other character becomes the \<open>%XX\<close> escapes of the octets of its UTF-8
  encoding. So when the user name is made of the unquoted characters and the at sign
  only, the value sent is what \<open>_convert_username\<close> computes; \<open>_convert_username\<close>
  itself is never called, and a user name with a plus sign, evaluated below, is sent
  with \<open>%2B\<close> in its place.
\<close>

theorem username_form_encoded:
  assumes "get_balance L self w = (res, self', w')
           \<or> send_money L self amount currency recipient account details w = (res, self', w')"
    and "sent w' = sent w @ [req]"
  shows "(\<exists>tail. body req = py ''username='' @ concat (map quote_char (username self))
                               @ py ''&'' @ tail)
         \<and> quote_char 64 = py ''%40''
         \<and> quote_char 32 = py ''+''
         \<and> (\<forall>c. unreserved c \<longrightarrow> quote_char c = [c])
         \<and> (\<forall>c \<in> set (username self). \<not> unreserved c \<and> c \<noteq> 32 \<longrightarrow>
               (\<exists>bs. encode_cp c = Inr bs \<and> quote_char c = concat (map percent_escape bs)))
         \<and> (list_all (\<lambda>c. unreserved c \<or> c = 64) (username self)
              \<longrightarrow> concat (map quote_char (username self))
                   = convert_username self (username self))"
proof -
  from assms(1) have "\<exists>qu tail. quote_plus (username self) = Inr qu
           \<and> body req = py ''username='' @ qu @ py ''&'' @ tail"
  proof
    assume "get_balance L self w = (res, self', w')"
    then have "send_request L self (py ''/v1/transaction/getBalance'')
                 ((py ''username'', PStr (username self)) # []) w = (res, self', w')"
      by (simp add: get_balance_def Let_def)
    from username_first [OF this assms(2)] show ?thesis .
  next
    assume "send_money L self amount currency recipient account details w = (res, self', w')"
    from username_first [OF send_money_dispatched [OF this assms(2)] assms(2)]
    show ?thesis .
  qed
  then obtain qu tail where q: "quote_plus (username self) = Inr qu"
    and b: "body req = py ''username='' @ qu @ py ''&'' @ tail" by blast
  from q have qu: "qu = concat (map quote_char (username self))" by (rule quote_plus_chars)
  from b have 1: "\<exists>tail. body req = py ''username='' @ concat (map quote_char (username self))
                               @ py ''&'' @ tail"
    unfolding qu by blast
  have 4: "\<forall>c. unreserved c \<longrightarrow> quote_char c = [c]"
    by (simp add: quote_char_unreserved)
  have 5: "\<forall>c \<in> set (username self). \<not> unreserved c \<and> c \<noteq> 32 \<longrightarrow>
               (\<exists>bs. encode_cp c = Inr bs \<and> quote_char c = concat (map percent_escape bs))"
  proof (intro ballI impI)
    fix c assume c: "c \<in> set (username self)" and n: "\<not> unreserved c \<and> c \<noteq> 32"
    from quote_plus_each [OF q c] obtain bs where e: "encode_cp c = Inr bs" ..
    from n have "quote_char c = concat (map percent_escape bs)"
      by (intro quote_char_other e) simp_all
    with e show "\<exists>bs. encode_cp c = Inr bs \<and> quote_char c = concat (map percent_escape bs)"
      by blast
  qed
  have 6: "list_all (\<lambda>c. unreserved c \<or> c = 64) (username self)
          \<longrightarrow> concat (map quote_char (username self)) = convert_username self (username self)"
  proof
    assume "list_all (\<lambda>c. unreserved c \<or> c = 64) (username self)"
    then have "\<forall>c \<in> set (username self). unreserved c \<or> c = 64"
      by (simp add: list_all_iff)
    from quote_plus_at [OF this] q show
      "concat (map quote_char (username self)) = convert_username self (username self)"
      unfolding qu by (simp add: convert_username_def)
  qed
  from 1 quote_char_at quote_char_space 4 5 6 show ?thesis by blast
qed

theorem username_form_encoded_witness:
  "(\<exists>tail. body (demo_request (py ''jane.doe@example.com'') (py ''jane.doe%40example.com''))
       = py ''username=''
         @ concat (map quote_char (username (demo_client (py ''jane.doe@example.com''))))
         @ py ''&'' @ tail)
   \<and> quote_char 64 = py ''%40''
   \<and> unreserved 46 \<and> quote_char 46 = [46]
   \<and> 64 \<in> set (username (demo_client (py ''jane.doe@example.com'')))
   \<and> \<not> unreserved 64
   \<and> (\<exists>bs. encode_cp 64 = Inr bs \<and> quote_char 64 = concat (map percent_escape bs))
   \<and> list_all (\<lambda>c. unreserved c \<or> c = 64) (username (demo_client (py ''jane.doe@example.com'')))
   \<and> concat (map quote_char (username (demo_client (py ''jane.doe@example.com''))))
       = convert_username (demo_client (py ''jane.doe@example.com''))
           (username (demo_client (py ''jane.doe@example.com'')))"
proof -
  have l: "list_all (\<lambda>c. unreserved c \<or> c = 64)
             (username (demo_client (py ''jane.doe@example.com'')))"
    by (simp add: demo_client_def Mistertango_def py_def unreserved_def)
  have u: "unreserved 46" "\<not> unreserved 64" "(64::nat) \<noteq> 32"
    by (simp_all add: unreserved_def)
  have m: "64 \<in> set (username (demo_client (py ''jane.doe@example.com'')))"
    by (simp add: demo_client_def Mistertango_def py_def)
  note a = username_form_encoded [OF disjI1 [OF demo_get_balance_dot [of 200 "py ''{}''"]]
      demo_sent_after]
  from a have 1: "\<exists>tail. body (demo_request (py ''jane.doe@example.com'')
         (py ''jane.doe%40example.com''))
       = py ''username=''
         @ concat (map quote_char (username (demo_client (py ''jane.doe@example.com''))))
         @ py ''&'' @ tail"
    by (rule conjunct1)
  from a have 2: "quote_char 64 = py ''%40''" by (elim conjE)
  from a have "\<forall>c. unreserved c \<longrightarrow> quote_char c = [c]" by (elim conjE)
  with u(1) have 4: "quote_char 46 = [46]" by blast
  from a have "\<forall>c \<in> set (username (demo_client (py ''jane.doe@example.com''))).
      \<not> unreserved c \<and> c \<noteq> 32 \<longrightarrow>
        (\<exists>bs. encode_cp c = Inr bs \<and> quote_char c = concat (map percent_escape bs))"
    by (elim conjE)
  with m u(2,3) have 5: "\<exists>bs. encode_cp 64 = Inr bs
      \<and> quote_char 64 = concat (map percent_escape bs)" by blast
  from a have "list_all (\<lambda>c. unreserved c \<or> c = 64)
        (username (demo_client (py ''jane.doe@example.com'')))
      \<longrightarrow> concat (map quote_char (username (demo_client (py ''jane.doe@example.com''))))
          = convert_username (demo_client (py ''jane.doe@example.com''))
              (username (demo_client (py ''jane.doe@example.com'')))"
    by (elim conjE)
  with l have 6: "concat (map quote_char (username (demo_client (py ''jane.doe@example.com''))))
          = convert_username (demo_client (py ''jane.doe@example.com''))
              (username (demo_client (py ''jane.doe@example.com'')))" by blast
  from 1 2 u(1) 4 m u(2) 5 l 6 show ?thesis by blast
qed

theorem username_form_encoded_counterexample:
  "map body (sent (snd (snd (get_balance demo_lib (demo_client (py ''john+doe@example.com''))
      (demo_world 200 (py ''{}''))))))
     = [py ''username=john%2Bdoe%40example.com&nonce=17000000000000062'']
   \<and> convert_username (demo_client (py ''john+doe@example.com''))
        (username (demo_client (py ''john+doe@example.com''))) = py ''john+doe%40example.com''
   \<and> py ''username=john%2Bdoe%40example.com&nonce=17000000000000062''
       \<noteq> py ''username=john+doe%40example.com&nonce=17000000000000062''"
  unfolding demo_get_balance_plus
  by (simp add: demo_request_def request_of_def demo_payload_def convert_username_def
      str_replace_def demo_client_def Mistertango_def py_def)

text \<open>
  Claim C9. After \<open>get_balance\<close> and after \<open>send_money\<close>, whether the call returns
  or raises, the client is the client the call was made on: its four fields are
  unchanged. The constructor stores the key, the secret and the user name it is
  given.
\<close>

theorem client_unchanged:
  "fst (snd (get_balance L self w)) = self
   \<and> fst (snd (send_money L self amount currency recipient account details w)) = self
   \<and> api_key (Mistertango k s u a) = k \<and> secret_key (Mistertango k s u a) = s
   \<and> username (Mistertango k s u a) = u"
  by (simp add: get_balance_def send_money_def send_request_self Mistertango_def Let_def)

text \<open>
  Claim C10. For every request posted by \<open>get_balance\<close> or \<open>send_money\<close>, the body
  is the form-encoding of the operation's own parameters followed by
  \<open>&nonce=\<close> and the nonce, so the nonce is the last field; the \<open>X-API-NONCE\<close>
  header holds that same nonce, and the \<open>X-API-SIGN\<close> header is the signature
  computed with that same nonce over that body.
\<close>

theorem nonce_last_and_shared:
  assumes "(get_balance L self w = (res, self', w')
              \<and> endpoint = py ''/v1/transaction/getBalance''
              \<and> data = [(py ''username'', PStr (username self))])
           \<or> (send_money L self amount currency recipient account details w = (res, self', w')
              \<and> endpoint = py ''/v1/transaction/sendMoney''
              \<and> data = [(py ''username'', PStr (username self)), (py ''amount'', PFloat amount),
                         (py ''currency'', PStr currency), (py ''recipient'', PStr recipient),
                         (py ''account'', PStr account), (py ''details'', PStr details)])"
    and "sent w' = sent w @ [req]"
  shows "\<exists>front. urlencode (float_str L) data = Inr front
           \<and> body req = front @ py ''&nonce='' @ str_int (clock w (ticks w))
           \<and> map_of (headers req) (py ''X-API-NONCE'') = Some (str_int (clock w (ticks w)))
           \<and> (\<exists>sg. make_signature L self (str_int (clock w (ticks w))) (body req) endpoint
                     = Inr sg
                 \<and> map_of (headers req) (py ''X-API-SIGN'') = Some sg)"
  using assms(1)
proof
  assume a: "get_balance L self w = (res, self', w')
              \<and> endpoint = py ''/v1/transaction/getBalance''
              \<and> data = [(py ''username'', PStr (username self))]"
  then have s: "send_request L self endpoint data w = (res, self', w')"
    by (simp add: get_balance_def Let_def)
  from a have d: "data \<noteq> []" "py ''nonce'' \<notin> fst ` set data" by (simp_all add: py_def)
  from send_request_nonce_last [OF s assms(2) d] show ?thesis .
next
  assume a: "send_money L self amount currency recipient account details w = (res, self', w')
              \<and> endpoint = py ''/v1/transaction/sendMoney''
              \<and> data = [(py ''username'', PStr (username self)), (py ''amount'', PFloat amount),
                         (py ''currency'', PStr currency), (py ''recipient'', PStr recipient),
                         (py ''account'', PStr account), (py ''details'', PStr details)]"
  then have "send_money L self amount currency recipient account details w = (res, self', w')"
    by simp
  from send_money_dispatched [OF this assms(2)] a
  have s: "send_request L self endpoint data w = (res, self', w')"
    by simp
  from a have d: "data \<noteq> []" "py ''nonce'' \<notin> fst ` set data" by (simp_all add: py_def)
  from send_request_nonce_last [OF s assms(2) d] show ?thesis .
qed

theorem nonce_last_and_shared_witness:
  "\<exists>front. urlencode (float_str demo_lib)
       [(py ''username'', PStr (username (demo_client (py ''jane.doe@example.com''))))]
       = Inr front
     \<and> body (demo_request (py ''jane.doe@example.com'') (py ''jane.doe%40example.com''))
         = front @ py ''&nonce=''
           @ str_int (clock (demo_world 200 (py ''{}'')) (ticks (demo_world 200 (py ''{}''))))
     \<and> map_of (headers (demo_request (py ''jane.doe@example.com'')
                          (py ''jane.doe%40example.com''))) (py ''X-API-NONCE'')
         = Some (str_int (clock (demo_world 200 (py ''{}'')) (ticks (demo_world 200 (py ''{}'')))))
     \<and> (\<exists>sg. make_signature demo_lib (demo_client (py ''jane.doe@example.com''))
              (str_int (clock (demo_world 200 (py ''{}'')) (ticks (demo_world 200 (py ''{}'')))))
              (body (demo_request (py ''jane.doe@example.com'') (py ''jane.doe%40example.com'')))
              (py ''/v1/transaction/getBalance'') = Inr sg
          \<and> map_of (headers (demo_request (py ''jane.doe@example.com'')
                               (py ''jane.doe%40example.com'')))
               (py ''X-API-SIGN'') = Some sg)"
  by (rule nonce_last_and_shared
        [OF disjI1 [OF conjI [OF demo_get_balance_dot conjI [OF refl refl]]] demo_sent_after])

end
